theory Spec2Isabelle
  imports Main "HOL-Library.Word"
begin

unbundle bit_operations_syntax

section \<open>MCTP serial endpoint: framer, transmitter and control responder\<close>

text \<open>
  A shallow embedding of \<^verbatim>\<open>src/mctp.c\<close> in its default configuration
  (\<^verbatim>\<open>MCTP_EVENT_TX_ENABLED\<close> is 0 and \<^verbatim>\<open>PLDM_SUPPORT\<close> is not defined).
  The file-level variables of the C source are the fields of one record, the platform
  serial driver is part of the same record, and every function takes the record and
  returns the updated one. An access of \<^verbatim>\<open>mctp_buffer\<close> beyond its capacity is
  undefined in C; the functions that index the buffer with a computed index return a
  \<open>fault\<close> in that case.
\<close>

subsection \<open>Types and constants\<close>

type_synonym uint8 = "8 word"
type_synonym uint16 = "16 word"

definition BASELINE_TRANSMISSION_UNIT :: nat where [simp]:
  "BASELINE_TRANSMISSION_UNIT = 64"

definition MCTP_BUFFER_SIZE :: nat where [simp]:
  "MCTP_BUFFER_SIZE = BASELINE_TRANSMISSION_UNIT + 6"

text \<open>Framer states of \<^verbatim>\<open>mctp_framer_states.h\<close>; \<^verbatim>\<open>rxState\<close> is a \<^verbatim>\<open>uint8_t\<close>.\<close>

definition MCTPSER_WAITING_FOR_SYNC :: uint8 where [simp]: "MCTPSER_WAITING_FOR_SYNC = 0"
definition MCTPSER_HEADER1 :: uint8 where [simp]: "MCTPSER_HEADER1 = 1"
definition MCTPSER_HEADER2 :: uint8 where [simp]: "MCTPSER_HEADER2 = 2"
definition MCTPSER_BODY :: uint8 where [simp]: "MCTPSER_BODY = 3"
definition MCTPSER_FCS1 :: uint8 where [simp]: "MCTPSER_FCS1 = 4"
definition MCTPSER_FCS2 :: uint8 where [simp]: "MCTPSER_FCS2 = 5"
definition MCTPSER_END :: uint8 where [simp]: "MCTPSER_END = 6"
definition MCTPSER_ESCAPE :: uint8 where [simp]: "MCTPSER_ESCAPE = 7"
definition MCTPSER_AWAITING_RESPONSE :: uint8 where [simp]: "MCTPSER_AWAITING_RESPONSE = 8"
definition SENDING_RESPONSE :: uint8 where [simp]: "SENDING_RESPONSE = 9"

text \<open>Offsets of the fields of a frame in \<^verbatim>\<open>mctp_buffer\<close>.\<close>

definition OFFSET_BYTE_COUNT :: nat where [simp]: "OFFSET_BYTE_COUNT = 2"
definition OFFSET_DESTINATION_ENDPOINT_ID :: nat where [simp]: "OFFSET_DESTINATION_ENDPOINT_ID = 4"
definition OFFSET_SOURCE_ENDPOINT_ID :: nat where [simp]: "OFFSET_SOURCE_ENDPOINT_ID = 5"
definition OFFSET_FLAGS :: nat where [simp]: "OFFSET_FLAGS = 6"
definition OFFSET_MSG_TYPE :: nat where [simp]: "OFFSET_MSG_TYPE = 7"
definition OFFSET_CTRL_INSTANCE_ID :: nat where [simp]: "OFFSET_CTRL_INSTANCE_ID = 8"
definition OFFSET_CTRL_COMMAND_CODE :: nat where [simp]: "OFFSET_CTRL_COMMAND_CODE = 9"
definition OFFSET_CTRL_COMPLETION_CODE :: nat where [simp]: "OFFSET_CTRL_COMPLETION_CODE = 10"

definition FRAME_CHAR :: uint8 where [simp]: "FRAME_CHAR = 0x7E"
definition ESCAPE_CHAR :: uint8 where [simp]: "ESCAPE_CHAR = 0x7D"

text \<open>Control command codes and completion codes of \<^verbatim>\<open>include/mctp.h\<close>.\<close>

definition CONTROL_MSG_SET_ENDPOINT_ID :: uint8 where [simp]: "CONTROL_MSG_SET_ENDPOINT_ID = 0x01"
definition CONTROL_MSG_GET_ENDPOINT_ID :: uint8 where [simp]: "CONTROL_MSG_GET_ENDPOINT_ID = 0x02"
definition CONTROL_MSG_GET_MCTP_VERSION_SUPPORT :: uint8 where [simp]:
  "CONTROL_MSG_GET_MCTP_VERSION_SUPPORT = 0x04"
definition CONTROL_MSG_GET_MESSAGE_TYPE_SUPPORT :: uint8 where [simp]:
  "CONTROL_MSG_GET_MESSAGE_TYPE_SUPPORT = 0x05"

definition CONTROL_COMPLETE_SUCCESS :: uint8 where [simp]: "CONTROL_COMPLETE_SUCCESS = 0x00"
definition CONTROL_COMPLETE_INVALID_DATA :: uint8 where [simp]: "CONTROL_COMPLETE_INVALID_DATA = 0x02"
definition CONTROL_COMPLETE_UNSUPPORTED_CMD :: uint8 where [simp]:
  "CONTROL_COMPLETE_UNSUPPORTED_CMD = 0x05"

subsection \<open>Frame check sequence\<close>

text \<open>
  Modelled from the spec: \<^verbatim>\<open>calc_fcs\<close> and \<^verbatim>\<open>INITFCS\<close> live in
  \<^verbatim>\<open>src/fcs.c\<close> and \<^verbatim>\<open>src/fcs.h\<close>, which are not among the sources; only the
  declaration \<^verbatim>\<open>uint16_t calc_fcs(uint16_t f, uint8_t* cp, int len)\<close> and its callers are.
  The spec describes a 16-bit running check over a byte range, seeded by an initial value
  (\<open>0xFFFF\<close>), that follows the HDLC/PPP FCS-16 convention, with the known answer
  \<open>50798\<close> on the bytes \<open>01 02 03 04\<close>. The PPP FCS-16 folds each byte into the low
  byte of the running value and then shifts eight times, applying the reflected
  polynomial \<open>0x8408\<close> whenever a one is shifted out. \<^verbatim>\<open>INITFCS\<close> is the seed.
\<close>

definition INITFCS :: uint16 where [simp]: "INITFCS = 0xFFFF"

text \<open>
  Modelled from the spec: one shift of the FCS-16 register (the body of \<^verbatim>\<open>src/fcs.c\<close>
  is missing), to the right, with the polynomial \<open>0x8408\<close> applied when the bit shifted
  out is set.
\<close>

definition fcs_shift :: "uint16 \<Rightarrow> uint16" where
  "fcs_shift f = (if f AND 1 = 1 then drop_bit 1 f XOR 0x8408 else drop_bit 1 f)"

text \<open>
  Modelled from the spec: the FCS-16 update for one byte (the body of \<^verbatim>\<open>src/fcs.c\<close> is
  missing; a table of 256 entries computes the same function).
\<close>

definition fcs_byte :: "uint16 \<Rightarrow> uint8 \<Rightarrow> uint16" where
  "fcs_byte f c = (fcs_shift ^^ 8) (f XOR ucast c)"

text \<open>
  Modelled from the spec: \<^verbatim>\<open>calc_fcs(f, cp, len)\<close> of the missing \<^verbatim>\<open>src/fcs.c\<close>, on
  the list of the \<open>len\<close> bytes at \<open>cp\<close>: the running check, one byte after the other.
\<close>

fun calc_fcs :: "uint16 \<Rightarrow> uint8 list \<Rightarrow> uint16" where
  "calc_fcs f [] = f"
| "calc_fcs f (c # cp) = calc_fcs (fcs_byte f c) cp"

subsection \<open>State\<close>

text \<open>
  The static variables of \<^verbatim>\<open>mctp.c\<close>, followed by the platform serial port:
  \<open>serial_rx\<close> holds the bytes waiting to be read (next byte first), \<open>serial_tx\<close>
  the bytes written so far (in order), \<open>can_write_sched\<close> the answer that the
  \<open>n\<close>-th call of \<^verbatim>\<open>platform_serial_can_write\<close> gives and \<open>can_write_calls\<close> the
  number of calls made so far.
\<close>

record mctp =
  endpoint_id :: uint8
  byte_count :: uint8
  buffer_idx :: uint8
  rxState :: uint8
  mctp_buffer :: "uint8 list"
  send_total_len :: uint16
  send_idx :: uint16
  send_in_progress :: uint8
  send_escape_pending :: uint8
  send_pending_byte :: uint8
  current_tx_slot :: uint8
  serial_rx :: "uint8 list"
  serial_tx :: "uint8 list"
  can_write_sched :: "nat \<Rightarrow> bool"
  can_write_calls :: nat

datatype fault = StoreOutOfBounds nat | ReadOutOfBounds nat

subsection \<open>Platform serial port\<close>

definition platform_serial_has_data :: "mctp \<Rightarrow> bool" where
  "platform_serial_has_data s = (serial_rx s \<noteq> [])"

definition platform_serial_read_byte :: "mctp \<Rightarrow> uint8 \<times> mctp" where
  "platform_serial_read_byte s =
     (case serial_rx s of [] \<Rightarrow> (0, s) | b # bs \<Rightarrow> (b, s\<lparr>serial_rx := bs\<rparr>))"

definition platform_serial_can_write :: "mctp \<Rightarrow> bool \<times> mctp" where
  "platform_serial_can_write s =
     (can_write_sched s (can_write_calls s), s\<lparr>can_write_calls := Suc (can_write_calls s)\<rparr>)"

definition platform_serial_write_byte :: "uint8 \<Rightarrow> mctp \<Rightarrow> mctp" where
  "platform_serial_write_byte b s = s\<lparr>serial_tx := serial_tx s @ [b]\<rparr>"

subsection \<open>Initial state\<close>

text \<open>
  C zero-initialises static storage; \<open>static_init\<close> is that state, with the serial
  port holding the bytes \<open>rx\<close> and answering writes by \<open>sched\<close>.
\<close>

definition static_init :: "uint8 list \<Rightarrow> (nat \<Rightarrow> bool) \<Rightarrow> mctp" where
  "static_init rx sched =
     \<lparr>endpoint_id = 0x00, byte_count = 0, buffer_idx = 0, rxState = 0,
      mctp_buffer = replicate MCTP_BUFFER_SIZE 0,
      send_total_len = 0, send_idx = 0, send_in_progress = 0, send_escape_pending = 0,
      send_pending_byte = 0, current_tx_slot = 0,
      serial_rx = rx, serial_tx = [], can_write_sched = sched, can_write_calls = 0\<rparr>"

definition mctp_init :: "mctp \<Rightarrow> mctp" where
  "mctp_init s = s\<lparr>rxState := MCTPSER_WAITING_FOR_SYNC, buffer_idx := 0\<rparr>"

subsection \<open>Receive validation\<close>

text \<open>\<^verbatim>\<open>mctp_buffer[buffer_idx++] = v\<close>, the only store of the framer.\<close>

definition store_next :: "uint8 \<Rightarrow> mctp \<Rightarrow> fault + mctp" where
  "store_next v s =
     (if unat (buffer_idx s) < MCTP_BUFFER_SIZE
      then Inr (s\<lparr>mctp_buffer := (mctp_buffer s)[unat (buffer_idx s) := v],
                  buffer_idx := buffer_idx s + 1\<rparr>)
      else Inl (StoreOutOfBounds (unat (buffer_idx s))))"

text \<open>
  \<^verbatim>\<open>validate_rx\<close> runs right after a store of the end flag has succeeded, so
  \<open>buffer_idx\<close> is at most the capacity and every index it reads is inside the buffer.
  The comparison of the byte count is made on C \<^verbatim>\<open>int\<close>s.
\<close>

definition validate_rx :: "mctp \<Rightarrow> bool \<times> mctp" where
  "validate_rx s =
     (if unat (buffer_idx s) < 11 then (False, s)
      else
        let s1 = s\<lparr>byte_count := mctp_buffer s ! 2\<rparr> in
        if int (unat (byte_count s1)) \<noteq> int (unat (buffer_idx s1)) - 6 then (False, s1)
        else
          let fcs = calc_fcs INITFCS (take (unat (buffer_idx s1) - 4) (drop 1 (mctp_buffer s1)));
              msg_fcs = push_bit 8 (ucast (mctp_buffer s1 ! (unat (buffer_idx s1) - 3)) :: uint16)
                        + ucast (mctp_buffer s1 ! (unat (buffer_idx s1) - 2))
          in (msg_fcs = fcs, s1))"

subsection \<open>Transmitter\<close>

text \<open>The statements after the \<^verbatim>\<open>while\<close> loop of \<^verbatim>\<open>mctp_send_frame\<close>.\<close>

definition send_complete :: "mctp \<Rightarrow> mctp" where
  "send_complete s =
     (if current_tx_slot s = 1
      then s\<lparr>send_in_progress := 0, send_idx := 0, send_total_len := 0,
              send_escape_pending := 0, rxState := MCTPSER_WAITING_FOR_SYNC,
              current_tx_slot := 0\<rparr>
      else s\<lparr>current_tx_slot := 0\<rparr>)"

text \<open>
  One pass through the body of the \<^verbatim>\<open>while (1)\<close> loop of \<^verbatim>\<open>mctp_send_frame\<close>,
  with \<^verbatim>\<open>bytes_sent\<close> as an accumulator: \<open>Continue\<close> is the \<^verbatim>\<open>continue\<close> (or
  the end of the body), \<open>Return\<close> a \<^verbatim>\<open>return\<close>, or the \<^verbatim>\<open>break\<close> followed by the
  statements after the loop. A result is the value returned and the state left behind.
\<close>

datatype iteration = Continue uint8 mctp | Return "fault + (uint8 \<times> mctp)"

definition send_iteration :: "uint8 \<Rightarrow> mctp \<Rightarrow> iteration" where
  "send_iteration bytes_sent s =
     (if current_tx_slot s = 1 \<and> send_total_len s \<le> send_idx s
      then Return (Inr (bytes_sent, send_complete s))
      else
        let (ok, s1) = platform_serial_can_write s in
        if \<not> ok then Return (Inr (bytes_sent, s1))
        else if current_tx_slot s1 = 1 then
          (if send_escape_pending s1 \<noteq> 0 then
             Continue (bytes_sent + 1)
               ((platform_serial_write_byte (send_pending_byte s1) s1)
                  \<lparr>send_escape_pending := 0, send_idx := send_idx s1 + 1\<rparr>)
           else
             let i = send_idx s1 in
             if MCTP_BUFFER_SIZE \<le> unat i then Return (Inl (ReadOutOfBounds (unat i)))
             else
               let data = mctp_buffer s1 ! unat i;
                   body_size = (ucast (mctp_buffer s1 ! OFFSET_BYTE_COUNT) :: uint16)
               in
               if i < 3 \<or> i > body_size + 3 then
                 Continue (bytes_sent + 1)
                   ((platform_serial_write_byte data s1)\<lparr>send_idx := send_idx s1 + 1\<rparr>)
               else if data = FRAME_CHAR \<or> data = ESCAPE_CHAR then
                 let s2 = (platform_serial_write_byte ESCAPE_CHAR s1)
                            \<lparr>send_pending_byte := data - 0x20\<rparr>;
                     (ok2, s3) = platform_serial_can_write s2
                 in
                 if \<not> ok2 then Return (Inr (bytes_sent, s3\<lparr>send_escape_pending := 1\<rparr>))
                 else
                   Continue (bytes_sent + 1)
                     ((platform_serial_write_byte (send_pending_byte s3) s3)
                        \<lparr>send_idx := send_idx s3 + 1\<rparr>)
               else
                 Continue (bytes_sent + 1)
                   ((platform_serial_write_byte data s1)\<lparr>send_idx := send_idx s1 + 1\<rparr>))
        else Return (Inr (bytes_sent, s1)))"

function send_loop :: "uint8 \<Rightarrow> mctp \<Rightarrow> fault + (uint8 \<times> mctp)" where
  "send_loop bytes_sent s =
     (case send_iteration bytes_sent s of
        Return r \<Rightarrow> r
      | Continue n s1 \<Rightarrow> send_loop n s1)"
  by pat_completeness auto

termination
proof -
  have adv: "unat n - unat (i + 1) < unat n - unat i" if "\<not> n \<le> i" for i n :: uint16
    using that
    by (meson diff_less_mono2 inc_less_eq_self_imp_top linorder_le_less_linear
        word_less_nat_alt)
  show ?thesis
    by (relation "measure (\<lambda>(n, s). unat (send_total_len s) - unat (send_idx s))")
       (auto simp: send_iteration_def Let_def platform_serial_can_write_def
          platform_serial_write_byte_def split: if_splits intro: adv)
qed

declare send_loop.simps [simp del]

text \<open>
  The block of \<^verbatim>\<open>mctp_send_frame\<close> that initialises the transmission of the primary
  slot: the total length is the byte count plus 6, computed in \<^verbatim>\<open>uint16_t\<close>.
\<close>

definition start_primary :: "mctp \<Rightarrow> mctp" where
  "start_primary s =
     s\<lparr>send_total_len := (ucast (mctp_buffer s ! OFFSET_BYTE_COUNT) :: uint16) + 6,
       send_idx := 0, send_escape_pending := 0,
       rxState := SENDING_RESPONSE, current_tx_slot := 1\<rparr>"

definition mctp_send_frame :: "mctp \<Rightarrow> fault + (uint8 \<times> mctp)" where
  "mctp_send_frame s =
     (if current_tx_slot s = 0 then
        (if rxState s = MCTPSER_AWAITING_RESPONSE then send_loop 0 (start_primary s)
         else Inr (0, s))
      else send_loop 0 s)"

text \<open>
  Calling \<^verbatim>\<open>mctp_send_frame\<close> again and again, at most \<open>n\<close> times, until the
  frame has completed (the active slot is cleared) or a fault occurs.
\<close>

fun send_frame_calls :: "nat \<Rightarrow> mctp \<Rightarrow> fault + mctp" where
  "send_frame_calls 0 s = Inr s"
| "send_frame_calls (Suc n) s =
     (case mctp_send_frame s of
        Inl f \<Rightarrow> Inl f
      | Inr (k, s1) \<Rightarrow> if current_tx_slot s1 = 0 then Inr s1 else send_frame_calls n s1)"

subsection \<open>The bytes a frame puts on the wire\<close>

text \<open>
  What the loop of \<^verbatim>\<open>mctp_send_frame\<close> writes for the buffer byte at index \<open>i\<close>, for
  the indices from \<open>i\<close> up to \<open>n\<close>, and for the rest of the frame in progress: the
  latched second byte of an escape pair first, if there is one.
\<close>

definition emitted_at :: "uint8 list \<Rightarrow> nat \<Rightarrow> uint8 list" where
  "emitted_at b i =
     (let data = b ! i in
      if i < 3 \<or> unat (b ! OFFSET_BYTE_COUNT) + 3 < i then [data]
      else if data = FRAME_CHAR \<or> data = ESCAPE_CHAR then [ESCAPE_CHAR, data - 0x20]
      else [data])"

definition emitted_from :: "uint8 list \<Rightarrow> nat \<Rightarrow> nat \<Rightarrow> uint8 list" where
  "emitted_from b i n = concat (map (emitted_at b) [i..<n])"

definition unsent :: "mctp \<Rightarrow> uint8 list" where
  "unsent s =
     (if send_escape_pending s \<noteq> 0
      then send_pending_byte s
             # emitted_from (mctp_buffer s) (Suc (unat (send_idx s))) (unat (send_total_len s))
      else emitted_from (mctp_buffer s) (unat (send_idx s)) (unat (send_total_len s)))"

text \<open>
  A transmission of the primary slot is in progress, the frame fits the buffer, and a
  latched escape byte belongs to a byte that is still to be completed.
\<close>

definition sending :: "mctp \<Rightarrow> bool" where
  "sending s =
     (current_tx_slot s = 1 \<and> rxState s = SENDING_RESPONSE
      \<and> unat (send_total_len s) \<le> MCTP_BUFFER_SIZE
      \<and> (send_escape_pending s = 0 \<or> send_idx s < send_total_len s))"

text \<open>
  What one call of \<^verbatim>\<open>mctp_send_frame\<close> leaves behind when it starts in \<open>s\<close> and
  returns in \<open>s'\<close>: the bytes written and the bytes still to write add up to the same
  stream, and either the frame is complete or the platform has refused a write that
  the call asked for.
\<close>

definition burst_ok :: "mctp \<Rightarrow> mctp \<Rightarrow> bool" where
  "burst_ok s s' =
     (serial_tx s' @ unsent s' = serial_tx s @ unsent s
      \<and> mctp_buffer s' = mctp_buffer s \<and> can_write_sched s' = can_write_sched s
      \<and> endpoint_id s' = endpoint_id s \<and> serial_rx s' = serial_rx s
      \<and> (current_tx_slot s' = 0 \<and> rxState s' = MCTPSER_WAITING_FOR_SYNC \<and> unsent s' = []
           \<or> sending s' \<and> (\<exists>m. can_write_calls s \<le> m \<and> \<not> can_write_sched s m)))"

subsection \<open>Framer\<close>

text \<open>
  The block that \<^verbatim>\<open>mctp_update\<close> runs on a start flag, in \<^verbatim>\<open>WAITING_FOR_SYNC\<close>,
  \<^verbatim>\<open>BODY\<close> and \<^verbatim>\<open>ESCAPE\<close>: reset the counters, store the flag at index 0 and wait
  for the first header byte.
\<close>

definition restart_frame :: "mctp \<Rightarrow> fault + mctp" where
  "restart_frame s =
     map_sum id (\<lambda>s1. s1\<lparr>rxState := MCTPSER_HEADER1\<rparr>)
       (store_next FRAME_CHAR (s\<lparr>byte_count := 0, buffer_idx := 0\<rparr>))"

text \<open>
  \<^verbatim>\<open>mctp_update\<close>. The \<^verbatim>\<open>switch\<close> has no default case: a value of \<^verbatim>\<open>rxState\<close>
  outside the ten states leaves the state as it is. The oversize test of
  \<^verbatim>\<open>MCTPSER_HEADER2\<close> adds three \<^verbatim>\<open>int\<close>s that stay below \<open>2^16\<close>, so the cast
  to \<^verbatim>\<open>uint16_t\<close> changes nothing.
\<close>

definition mctp_update :: "mctp \<Rightarrow> fault + mctp" where
  "mctp_update s0 =
     (if \<not> platform_serial_has_data s0 then Inr s0
      else
        let (byte_value, s) = platform_serial_read_byte s0 in
        if rxState s = MCTPSER_WAITING_FOR_SYNC then
          (if byte_value = FRAME_CHAR then restart_frame s else Inr s)
        else if rxState s = MCTPSER_HEADER1 then
          map_sum id (\<lambda>s1. s1\<lparr>rxState := MCTPSER_HEADER2\<rparr>) (store_next byte_value s)
        else if rxState s = MCTPSER_HEADER2 then
          (case store_next byte_value s of
             Inl f \<Rightarrow> Inl f
           | Inr s1 \<Rightarrow>
               let s2 = s1\<lparr>byte_count := byte_value\<rparr> in
               if unat (byte_count s2) + unat (buffer_idx s2) + 5 > MCTP_BUFFER_SIZE
               then Inr (s2\<lparr>rxState := MCTPSER_WAITING_FOR_SYNC\<rparr>)
               else Inr (s2\<lparr>rxState := MCTPSER_BODY\<rparr>))
        else if rxState s = MCTPSER_BODY then
          (if byte_value = ESCAPE_CHAR then Inr (s\<lparr>rxState := MCTPSER_ESCAPE\<rparr>)
           else if byte_value = FRAME_CHAR then restart_frame s
           else
             (case store_next byte_value s of
                Inl f \<Rightarrow> Inl f
              | Inr s1 \<Rightarrow>
                  let s2 = s1\<lparr>byte_count := byte_count s1 - 1\<rparr> in
                  if byte_count s2 = 0 then Inr (s2\<lparr>rxState := MCTPSER_FCS1\<rparr>) else Inr s2))
        else if rxState s = MCTPSER_FCS1 then
          map_sum id (\<lambda>s1. s1\<lparr>rxState := MCTPSER_FCS2\<rparr>) (store_next byte_value s)
        else if rxState s = MCTPSER_FCS2 then
          map_sum id (\<lambda>s1. s1\<lparr>rxState := MCTPSER_END\<rparr>) (store_next byte_value s)
        else if rxState s = MCTPSER_END then
          (if byte_value \<noteq> FRAME_CHAR then Inr (s\<lparr>rxState := MCTPSER_WAITING_FOR_SYNC\<rparr>)
           else
             (case store_next byte_value s of
                Inl f \<Rightarrow> Inl f
              | Inr s1 \<Rightarrow>
                  let (valid, s2) = validate_rx s1 in
                  if valid then
                    let dest = mctp_buffer s2 ! OFFSET_DESTINATION_ENDPOINT_ID in
                    if dest = 0x00 \<or> dest = 0xFF \<or> dest = endpoint_id s2
                    then Inr (s2\<lparr>rxState := MCTPSER_AWAITING_RESPONSE\<rparr>)
                    else Inr (s2\<lparr>rxState := MCTPSER_WAITING_FOR_SYNC\<rparr>)
                  else Inr (s2\<lparr>rxState := MCTPSER_WAITING_FOR_SYNC\<rparr>)))
        else if rxState s = MCTPSER_ESCAPE then
          (if byte_value = ESCAPE_CHAR - 0x20 \<or> byte_value = FRAME_CHAR - 0x20 then
             (case store_next (byte_value + 0x20) s of
                Inl f \<Rightarrow> Inl f
              | Inr s1 \<Rightarrow>
                  let s2 = s1\<lparr>byte_count := byte_count s1 - 1\<rparr> in
                  if byte_count s2 = 0 then Inr (s2\<lparr>rxState := MCTPSER_FCS1\<rparr>)
                  else Inr (s2\<lparr>rxState := MCTPSER_BODY\<rparr>))
           else if byte_value = FRAME_CHAR then restart_frame s
           else Inr (s\<lparr>rxState := MCTPSER_WAITING_FOR_SYNC\<rparr>))
        else if rxState s = MCTPSER_AWAITING_RESPONSE \<or> rxState s = SENDING_RESPONSE then
          map_sum id snd (mctp_send_frame s)
        else Inr s)"

text \<open>Calling \<^verbatim>\<open>mctp_update\<close> \<open>n\<close> times, stopping at the first fault.\<close>

fun mctp_updates :: "nat \<Rightarrow> mctp \<Rightarrow> fault + mctp" where
  "mctp_updates 0 s = Inr s"
| "mctp_updates (Suc n) s =
     (case mctp_update s of Inl f \<Rightarrow> Inl f | Inr s1 \<Rightarrow> mctp_updates n s1)"

definition mctp_is_packet_available :: "mctp \<Rightarrow> bool" where
  "mctp_is_packet_available s = (rxState s = MCTPSER_AWAITING_RESPONSE)"

definition mctp_is_control_packet :: "mctp \<Rightarrow> bool" where
  "mctp_is_control_packet s = (mctp_buffer s ! OFFSET_MSG_TYPE AND 0x0F = 0x00)"

definition mctp_is_pldm_packet :: "mctp \<Rightarrow> bool" where
  "mctp_is_pldm_packet s = (mctp_buffer s ! OFFSET_MSG_TYPE AND 0x0F = 0x01)"

definition mctp_ignore_packet :: "mctp \<Rightarrow> mctp" where
  "mctp_ignore_packet s = s\<lparr>rxState := MCTPSER_WAITING_FOR_SYNC\<rparr>"

subsection \<open>Control responder\<close>

text \<open>
  Every handler rewrites the request in \<^verbatim>\<open>mctp_buffer\<close> into the response with the
  same commented blocks, at constant indices below the capacity; each block is one
  function on the buffer here.
\<close>

definition clear_rq_bit :: "uint8 list \<Rightarrow> uint8 list" where
  "clear_rq_bit b = b[OFFSET_CTRL_INSTANCE_ID := b ! OFFSET_CTRL_INSTANCE_ID AND NOT 0x80]"

definition toggle_tag_owner :: "uint8 list \<Rightarrow> uint8 list" where
  "toggle_tag_owner b = b[OFFSET_FLAGS := b ! OFFSET_FLAGS XOR 0x08]"

definition set_som_eom :: "uint8 list \<Rightarrow> uint8 list" where
  "set_som_eom b = b[OFFSET_FLAGS := b ! OFFSET_FLAGS OR 0xC0]"

definition swap_eids :: "uint8 list \<Rightarrow> uint8 list" where
  "swap_eids b =
     (let source_eid = b ! OFFSET_SOURCE_ENDPOINT_ID;
          dest_eid = b ! OFFSET_DESTINATION_ENDPOINT_ID
      in b[OFFSET_SOURCE_ENDPOINT_ID := dest_eid, OFFSET_DESTINATION_ENDPOINT_ID := source_eid])"

definition set_byte_count :: "nat \<Rightarrow> uint8 list \<Rightarrow> uint8 list" where
  "set_byte_count idx b = b[OFFSET_BYTE_COUNT := of_nat (idx - OFFSET_BYTE_COUNT - 1)]"

text \<open>
  \<^verbatim>\<open>calc_fcs(INITFCS, mctp_buffer + 1, idx)\<close> reads \<open>idx\<close> bytes from index 1 on; the
  two FCS bytes and the end flag follow at \<open>idx\<close>, \<open>idx + 1\<close> and \<open>idx + 2\<close>.
\<close>

definition append_fcs_and_end :: "nat \<Rightarrow> uint8 list \<Rightarrow> uint8 list" where
  "append_fcs_and_end idx b =
     (let fcs = calc_fcs INITFCS (take idx (drop 1 b))
      in b[idx := ucast (drop_bit 8 fcs), idx + 1 := ucast (fcs AND 0x00FF),
           idx + 2 := FRAME_CHAR])"

text \<open>The handlers call \<^verbatim>\<open>mctp_send_frame\<close> and drop the count it returns.\<close>

definition send_response :: "mctp \<Rightarrow> fault + mctp" where
  "send_response s = map_sum id snd (mctp_send_frame s)"

definition process_set_endpoint_id_control_message :: "mctp \<Rightarrow> fault + mctp" where
  "process_set_endpoint_id_control_message s =
     (if \<not> mctp_is_packet_available s then Inr s
      else
        let operation = mctp_buffer s ! OFFSET_CTRL_COMPLETION_CODE AND 0x02;
            eid = mctp_buffer s ! (OFFSET_CTRL_COMPLETION_CODE + 1);
            (completion_code, endpoint_acceptance_status) =
              (if operation = 0x02 then (CONTROL_COMPLETE_INVALID_DATA, 0x10)
               else if operation = 0x03 then (CONTROL_COMPLETE_INVALID_DATA, 0x10)
               else if eid = 0x00 \<or> eid = 0xFF then (CONTROL_COMPLETE_INVALID_DATA, 0x10)
               else (CONTROL_COMPLETE_SUCCESS, 0x00));
            body = (mctp_buffer s)
                     [10 := completion_code, 11 := endpoint_acceptance_status,
                      12 := endpoint_id s, 13 := 0x00];
            idx = 14;
            response =
              append_fcs_and_end idx (set_byte_count idx (swap_eids (set_som_eom
                (toggle_tag_owner (clear_rq_bit body)))))
        in
        case send_response (s\<lparr>mctp_buffer := response\<rparr>) of
          Inl f \<Rightarrow> Inl f
        | Inr s1 \<Rightarrow>
            Inr (if completion_code = CONTROL_COMPLETE_SUCCESS
                 then s1\<lparr>endpoint_id := eid\<rparr> else s1))"

definition process_get_endpoint_id_control_message :: "mctp \<Rightarrow> fault + mctp" where
  "process_get_endpoint_id_control_message s =
     (if \<not> mctp_is_packet_available s then Inr s
      else
        let body = (mctp_buffer s)
                     [10 := CONTROL_COMPLETE_SUCCESS, 11 := endpoint_id s, 12 := 0x00];
            idx = 13;
            response =
              append_fcs_and_end idx (set_som_eom (toggle_tag_owner (clear_rq_bit
                (set_byte_count idx (swap_eids (clear_rq_bit body))))))
        in send_response (s\<lparr>mctp_buffer := response\<rparr>))"

definition process_get_mctp_version_support_control_message :: "mctp \<Rightarrow> fault + mctp" where
  "process_get_mctp_version_support_control_message s =
     (if \<not> mctp_is_packet_available s then Inr s
      else
        let msg_type = mctp_buffer s ! OFFSET_CTRL_COMPLETION_CODE;
            (body, idx) =
              (if msg_type = 0x00 then
                 ((mctp_buffer s)[10 := CONTROL_COMPLETE_SUCCESS, 11 := 1, 12 := 0x01,
                                  13 := 0x03, 14 := 0x01, 15 := 0x00], 16)
               else if msg_type = 0xFF then
                 ((mctp_buffer s)[10 := CONTROL_COMPLETE_SUCCESS, 11 := 1, 12 := 0x01,
                                  13 := 0x03, 14 := 0x01, 15 := 0x00], 16)
               else ((mctp_buffer s)[10 := 0x80, 11 := 0x00], 12));
            response =
              append_fcs_and_end idx (set_byte_count idx (swap_eids (set_som_eom
                (toggle_tag_owner (clear_rq_bit body)))))
        in send_response (s\<lparr>mctp_buffer := response\<rparr>))"

definition process_get_message_type_support_control_message :: "mctp \<Rightarrow> fault + mctp" where
  "process_get_message_type_support_control_message s =
     (if \<not> mctp_is_packet_available s then Inr s
      else
        let body = (mctp_buffer s)
                     [10 := CONTROL_COMPLETE_SUCCESS, 11 := 4,
                      12 := CONTROL_MSG_SET_ENDPOINT_ID, 13 := CONTROL_MSG_GET_ENDPOINT_ID,
                      14 := CONTROL_MSG_GET_MCTP_VERSION_SUPPORT,
                      15 := CONTROL_MSG_GET_MESSAGE_TYPE_SUPPORT];
            idx = 16;
            response =
              append_fcs_and_end idx (set_byte_count idx (swap_eids (set_som_eom
                (toggle_tag_owner (clear_rq_bit body)))))
        in send_response (s\<lparr>mctp_buffer := response\<rparr>))"

definition process_unsupported_control_message :: "mctp \<Rightarrow> fault + mctp" where
  "process_unsupported_control_message s =
     (if \<not> mctp_is_packet_available s then Inr s
      else
        let body = (mctp_buffer s)[10 := CONTROL_COMPLETE_UNSUPPORTED_CMD];
            idx = 11;
            response =
              append_fcs_and_end idx (set_byte_count idx (swap_eids (set_som_eom
                (toggle_tag_owner (clear_rq_bit body)))))
        in send_response (s\<lparr>mctp_buffer := response\<rparr>))"

definition mctp_process_control_message :: "mctp \<Rightarrow> fault + mctp" where
  "mctp_process_control_message s =
     (let command = mctp_buffer s ! OFFSET_CTRL_COMMAND_CODE in
      if command = CONTROL_MSG_SET_ENDPOINT_ID then
        process_set_endpoint_id_control_message s
      else if command = CONTROL_MSG_GET_ENDPOINT_ID then
        process_get_endpoint_id_control_message s
      else if command = CONTROL_MSG_GET_MCTP_VERSION_SUPPORT then
        process_get_mctp_version_support_control_message s
      else if command = CONTROL_MSG_GET_MESSAGE_TYPE_SUPPORT then
        process_get_message_type_support_control_message s
      else process_unsupported_control_message s)"


subsection \<open>Example states\<close>

text \<open>
  The framer in \<^verbatim>\<open>MCTPSER_END\<close> with the first ten bytes of the frame of the test
  \<^verbatim>\<open>test_validate_rx_valid\<close> in the buffer (byte count 5, destination \<open>dest\<close>, FCS
  \<open>0xDED0\<close>) and the end flag waiting at the serial port.
\<close>

definition rx_end_example :: "uint8 \<Rightarrow> mctp" where
  "rx_end_example dest =
     (static_init [FRAME_CHAR] (\<lambda>n. True))
       \<lparr>rxState := MCTPSER_END, buffer_idx := 10,
        mctp_buffer := [0x7E, 0x01, 0x05, 0x10, dest, 0x30, 0x40, 0x50, 0xDE, 0xD0]
                       @ replicate 60 0x00\<rparr>"

text \<open>
  The frame of the test \<^verbatim>\<open>test_send_frame_escape_and_resume\<close> (byte count 2, the
  second body byte a \<open>0x7E\<close>) in the buffer, ready to be sent, on a platform that
  answers writes by \<open>sched\<close>.
\<close>

definition tx_escape_example :: "(nat \<Rightarrow> bool) \<Rightarrow> mctp" where
  "tx_escape_example sched =
     (static_init [] sched)
       \<lparr>rxState := MCTPSER_AWAITING_RESPONSE,
        mctp_buffer := [0x7E, 0x01, 0x02, 0x00, 0x7E, 0x12, 0x34, 0x7E] @ replicate 62 0x00\<rparr>"

text \<open>
  A request that the framer has accepted: \<open>frame\<close> at the start of the buffer, packet
  available, nothing being transmitted.
\<close>

definition packet_available_example :: "uint8 list \<Rightarrow> mctp" where
  "packet_available_example frame =
     (static_init [] (\<lambda>n. True))
       \<lparr>rxState := MCTPSER_AWAITING_RESPONSE, buffer_idx := of_nat (length frame),
        mctp_buffer := frame @ replicate (MCTP_BUFFER_SIZE - length frame) 0x00\<rparr>"

subsection \<open>Response header\<close>

text \<open>
  What the spec requires of the header of every response, \<open>r\<close>, to a request \<open>q\<close>:
  source and destination EID swapped, SOM (bit 7) and EOM (bit 6) of the flags set, the
  Tag Owner bit (bit 3) inverted and the Rq bit (bit 7 of the instance-ID byte) cleared.
\<close>

definition response_header_of :: "uint8 list \<Rightarrow> uint8 list \<Rightarrow> bool" where
  "response_header_of q r =
     (r ! OFFSET_DESTINATION_ENDPOINT_ID = q ! OFFSET_SOURCE_ENDPOINT_ID
      \<and> r ! OFFSET_SOURCE_ENDPOINT_ID = q ! OFFSET_DESTINATION_ENDPOINT_ID
      \<and> bit (r ! OFFSET_FLAGS) 7 \<and> bit (r ! OFFSET_FLAGS) 6
      \<and> bit (r ! OFFSET_FLAGS) 3 = (\<not> bit (q ! OFFSET_FLAGS) 3)
      \<and> \<not> bit (r ! OFFSET_CTRL_INSTANCE_ID) 7)"

section \<open>Properties\<close>

subsection \<open>Frame check sequence\<close>

lemma fcs_byte_unfold:
  "fcs_byte f c =
     fcs_shift (fcs_shift (fcs_shift (fcs_shift (fcs_shift (fcs_shift (fcs_shift
       (fcs_shift (f XOR ucast c))))))))"
  by (simp add: fcs_byte_def eval_nat_numeral)

lemma calc_fcs_known_answer: "calc_fcs INITFCS [0x01, 0x02, 0x03, 0x04] = 50798"
  by (simp add: fcs_byte_unfold fcs_shift_def)

text \<open>
  C10. The FCS is a function of the seed and the bytes alone, and it chains: running it
  over \<open>A\<close> and then over \<open>B\<close> from the intermediate value equals running it over
  \<open>A @ B\<close>, for every seed and in particular for the seed \<open>0xFFFF\<close>.
\<close>

theorem calc_fcs_split_and_chain:
  "calc_fcs (calc_fcs s A) B = calc_fcs s (A @ B)
   \<and> calc_fcs INITFCS (A @ B) = calc_fcs (calc_fcs INITFCS A) B"
proof -
  have chain: "calc_fcs (calc_fcs f A) B = calc_fcs f (A @ B)" for f
    by (induction A arbitrary: f) simp_all
  show ?thesis
    using chain [of s] chain [of INITFCS] by simp
qed

subsection \<open>Evaluation on concrete inputs\<close>

lemma mctp_updates_numeral:
  "mctp_updates (numeral k) s =
     (case mctp_update s of Inl f \<Rightarrow> Inl f | Inr s1 \<Rightarrow> mctp_updates (pred_numeral k) s1)"
  by (simp add: numeral_eq_Suc)

lemma send_frame_calls_numeral:
  "send_frame_calls (numeral n) s =
     (case mctp_send_frame s of
        Inl f \<Rightarrow> Inl f
      | Inr (k, s1) \<Rightarrow>
          if current_tx_slot s1 = 0 then Inr s1 else send_frame_calls (pred_numeral n) s1)"
  by (simp add: numeral_eq_Suc)

lemma replicate_numeral_unfold:
  "replicate (numeral k) x = x # replicate (pred_numeral k) x"
  by (simp add: numeral_eq_Suc)

lemma list_update_Cons_numeral:
  "(x # xs)[numeral k := v] = x # xs[pred_numeral k := v]"
  by (simp add: numeral_eq_Suc)

lemmas framer_eval =
  replicate_numeral_unfold list_update_Cons_numeral
  mctp_updates_numeral mctp_update_def mctp_init_def static_init_def
  platform_serial_has_data_def platform_serial_read_byte_def store_next_def
  restart_frame_def Let_def

lemmas send_eval =
  send_frame_calls_numeral mctp_send_frame_def start_primary_def send_loop.simps
  send_iteration_def
  send_complete_def platform_serial_can_write_def platform_serial_write_byte_def
  word_le_nat_alt word_less_nat_alt

subsection \<open>Transmitter: one pass, one call\<close>

lemma unat_send_idx_inc:
  fixes i n :: uint16
  shows "\<not> n \<le> i \<Longrightarrow> unat (i + 1) = Suc (unat i)"
  by (metis add.commute add.right_inverse add_left_cancel unatSuc word_order.extremum)

lemma unat_ucast_byte: "unat (ucast (x::uint8) :: uint16) = unat x"
proof -
  have "unat x < 2 ^ 8" using unsigned_less[of x] by simp
  then have "unat x < 2 ^ 16" by simp
  then show ?thesis by (simp add: unsigned_ucast_eq take_bit_nat_eq_self)
qed

lemma unat_body_plus:
  assumes "k \<le> 6"
  shows "unat ((ucast (x::uint8) :: uint16) + of_nat k) = unat x + k"
proof -
  have "unat x < 2 ^ 8" using unsigned_less[of x] by simp
  with assms have "unat x + k < 2 ^ 16" by simp
  then show ?thesis
    by (simp add: unat_word_ariths unat_ucast_byte unat_of_nat take_bit_nat_eq_self)
qed

lemma unat_body_plus3: "unat ((ucast (x::uint8) :: uint16) + 3) = unat x + 3"
  using unat_body_plus[of 3 x] by simp

lemma unat_body_plus6: "unat ((ucast (x::uint8) :: uint16) + 6) = unat x + 6"
  using unat_body_plus[of 6 x] by simp

lemma emitted_from_step:
  "i < n \<Longrightarrow> emitted_from b i n = emitted_at b i @ emitted_from b (Suc i) n"
  by (simp add: emitted_from_def upt_conv_Cons)

lemma emitted_from_done: "n \<le> i \<Longrightarrow> emitted_from b i n = []"
  by (simp add: emitted_from_def)

lemmas send_iteration_defs =
  send_iteration_def Let_def platform_serial_can_write_def platform_serial_write_byte_def

lemma sending_not_finished:
  assumes "sending s" and "send_iteration n s = Continue n' s'"
  shows "\<not> send_total_len s \<le> send_idx s"
  using assms by (auto simp: send_iteration_def sending_def)

lemma sending_can_write:
  assumes "sending s" and "send_iteration n s = Continue n' s'"
  shows "can_write_sched s (can_write_calls s)"
proof (rule ccontr)
  assume "\<not> can_write_sched s (can_write_calls s)"
  with assms sending_not_finished[OF assms] show False
    by (simp add: send_iteration_defs sending_def)
qed

lemma send_iteration_Continue:
  assumes "sending s" and "send_iteration n s = Continue n' s'"
  shows "sending s' \<and> serial_tx s' @ unsent s' = serial_tx s @ unsent s
         \<and> mctp_buffer s' = mctp_buffer s \<and> can_write_sched s' = can_write_sched s
         \<and> endpoint_id s' = endpoint_id s \<and> serial_rx s' = serial_rx s
         \<and> can_write_calls s \<le> can_write_calls s'"
proof -
  note nb = sending_not_finished[OF assms] and ok = sending_can_write[OF assms]
  from assms(1) have slot: "current_tx_slot s = 1" and rx: "rxState s = SENDING_RESPONSE"
    and tot: "unat (send_total_len s) \<le> MCTP_BUFFER_SIZE"
    and esc: "send_escape_pending s = 0 \<or> send_idx s < send_total_len s"
    by (simp_all add: sending_def)
  have lt: "unat (send_idx s) < unat (send_total_len s)"
    using nb by (simp add: word_le_nat_alt)
  have inc: "unat (send_idx s + 1) = Suc (unat (send_idx s))"
    using nb by (rule unat_send_idx_inc)
  show ?thesis
  proof (cases "send_escape_pending s = 0")
    case False
    with assms(2) nb ok slot rx tot lt inc show ?thesis
      by (clarsimp simp: send_iteration_defs sending_def unsent_def)
  next
    case True
    note esc0 = this
    show ?thesis
    proof (cases "send_idx s < 3 \<or> ucast (mctp_buffer s ! 2) + 3 < send_idx s")
      case True
      with assms(2) nb ok slot rx tot lt inc esc0 show ?thesis
        by (clarsimp simp: send_iteration_defs sending_def unsent_def emitted_from_step
              emitted_at_def word_less_nat_alt unat_body_plus3 split: if_splits)
    next
      case False
      with assms(2) nb ok slot rx tot lt inc esc0 show ?thesis
        by (clarsimp simp: send_iteration_defs sending_def unsent_def emitted_from_step
              emitted_at_def word_less_nat_alt unat_body_plus3 split: if_splits)
    qed
  qed
qed


lemma send_iteration_Return_case:
  assumes "sending s" and "send_iteration n s = Return r"
  shows "case r of Inl f \<Rightarrow> False | Inr (k, s') \<Rightarrow> burst_ok s s'"
proof -
  from assms(1) have slot: "current_tx_slot s = 1" and rx: "rxState s = SENDING_RESPONSE"
    and tot: "unat (send_total_len s) \<le> MCTP_BUFFER_SIZE"
    and esc: "send_escape_pending s = 0 \<or> send_idx s < send_total_len s"
    by (simp_all add: sending_def)
  show ?thesis
  proof (cases "send_total_len s \<le> send_idx s")
    case True
    with esc have esc0: "send_escape_pending s = 0" by auto
    from True have le: "unat (send_total_len s) \<le> unat (send_idx s)"
      by (simp add: word_le_nat_alt)
    from assms(2) True slot have r: "r = Inr (n, send_complete s)"
      by (simp add: send_iteration_def)
    show ?thesis
      unfolding r using slot esc0 le
      by (simp add: burst_ok_def send_complete_def unsent_def emitted_from_done)
  next
    case False
    note nb = this
    then have lt: "unat (send_idx s) < unat (send_total_len s)"
      by (simp add: word_le_nat_alt)
    show ?thesis
    proof (cases "can_write_sched s (can_write_calls s)")
      case False
      with assms(2) nb slot have r: "r = Inr (n, s\<lparr>can_write_calls := Suc (can_write_calls s)\<rparr>)"
        by (simp add: send_iteration_defs)
      show ?thesis
        unfolding r using False slot rx tot esc
        by (auto simp: burst_ok_def sending_def unsent_def)
    next
      case True
      note ok = this
      show ?thesis
      proof (cases "send_escape_pending s = 0")
        case False
        with assms(2) nb ok slot show ?thesis
          by (simp add: send_iteration_defs)
      next
        case True
        have later: "\<exists>m\<ge>can_write_calls s. \<not> can_write_sched s m"
          if "\<not> can_write_sched s (Suc (can_write_calls s))"
          using that by (intro exI[of _ "Suc (can_write_calls s)"]) simp
        from assms(2) nb ok slot rx tot lt True show ?thesis
          by (auto simp: send_iteration_defs burst_ok_def sending_def unsent_def
                emitted_from_step emitted_at_def word_less_nat_alt unat_body_plus3 later
                split: if_splits)
      qed
    qed
  qed
qed

lemma send_iteration_Return:
  assumes "sending s" and "send_iteration n s = Return r"
  shows "\<exists>k s'. r = Inr (k, s') \<and> burst_ok s s'"
  using send_iteration_Return_case[OF assms] by (cases r) auto

lemma send_iteration_Continue_ok:
  assumes "sending s" and "send_iteration n s = Continue n' s'" and "burst_ok s' s''"
  shows "burst_ok s s''"
  using send_iteration_Continue[OF assms(1,2)] assms(3)
  by (auto simp: burst_ok_def intro: order_trans)

lemma send_loop_sending:
  assumes "sending s"
  shows "\<exists>k s'. send_loop n s = Inr (k, s') \<and> burst_ok s s'"
  using assms
proof (induction n s rule: send_loop.induct)
  case (1 bytes_sent s)
  show ?case
  proof (cases "send_iteration bytes_sent s")
    case (Continue n' s1)
    with "1.prems" have "sending s1"
      using send_iteration_Continue by blast
    with "1.IH"[OF Continue] obtain k s' where
      "send_loop n' s1 = Inr (k, s')" and "burst_ok s1 s'" by blast
    with Continue "1.prems" show ?thesis
      by (subst send_loop.simps) (auto intro: send_iteration_Continue_ok)
  next
    case (Return r)
    with "1.prems" show ?thesis
      by (subst send_loop.simps) (auto dest: send_iteration_Return)
  qed
qed


subsection \<open>Transmitter: repeated calls\<close>

lemma start_primary_sending:
  assumes "unat (mctp_buffer s ! OFFSET_BYTE_COUNT) + 6 \<le> MCTP_BUFFER_SIZE"
  shows "sending (start_primary s)"
    and "unsent (start_primary s)
         = emitted_from (mctp_buffer s) 0 (unat (mctp_buffer s ! OFFSET_BYTE_COUNT) + 6)"
    and "serial_tx (start_primary s) = serial_tx s"
    and "mctp_buffer (start_primary s) = mctp_buffer s"
  using assms by (simp_all add: sending_def unsent_def start_primary_def unat_body_plus6)

lemma send_frame_calls_sending:
  assumes "sending x"
  shows "\<exists>s'. send_frame_calls n x = Inr s'
           \<and> serial_tx s' @ unsent s' = serial_tx x @ unsent x
           \<and> (rxState s' = MCTPSER_WAITING_FOR_SYNC \<longrightarrow> unsent s' = [])"
  using assms
proof (induction n arbitrary: x)
  case 0
  then show ?case by (simp add: sending_def)
next
  case (Suc n)
  from Suc.prems have slot: "current_tx_slot x \<noteq> 0" by (simp add: sending_def)
  from send_loop_sending[OF Suc.prems, of 0] obtain k x1 where
    run: "send_loop 0 x = Inr (k, x1)" and ok: "burst_ok x x1" by blast
  show ?case
  proof (cases "current_tx_slot x1 = 0")
    case True
    with ok have "rxState x1 = MCTPSER_WAITING_FOR_SYNC \<and> unsent x1 = []"
      by (auto simp: burst_ok_def sending_def)
    with run ok slot True show ?thesis
      by (simp add: mctp_send_frame_def burst_ok_def)
  next
    case False
    with ok have "sending x1" by (auto simp: burst_ok_def)
    from Suc.IH[OF this] obtain s' where
      "send_frame_calls n x1 = Inr s'"
      "serial_tx s' @ unsent s' = serial_tx x1 @ unsent x1"
      "rxState s' = MCTPSER_WAITING_FOR_SYNC \<longrightarrow> unsent s' = []" by blast
    with run ok slot False show ?thesis
      by (simp add: mctp_send_frame_def burst_ok_def)
  qed
qed

lemma send_frame_calls_from_start:
  assumes "rxState s = MCTPSER_AWAITING_RESPONSE" and "current_tx_slot s = 0"
    and "unat (mctp_buffer s ! OFFSET_BYTE_COUNT) + 6 \<le> MCTP_BUFFER_SIZE"
  shows "\<exists>s'. send_frame_calls n s = Inr s'
           \<and> (\<exists>rest. serial_tx s @ unsent (start_primary s) = serial_tx s' @ rest)
           \<and> (rxState s' = MCTPSER_WAITING_FOR_SYNC
                \<longrightarrow> serial_tx s' = serial_tx s @ unsent (start_primary s))"
proof (cases n)
  case 0
  with assms show ?thesis by simp
next
  case (Suc m)
  note st = start_primary_sending[OF assms(3)]
  from send_loop_sending[OF st(1), of 0] obtain k x1 where
    run: "send_loop 0 (start_primary s) = Inr (k, x1)"
    and ok: "burst_ok (start_primary s) x1" by blast
  from ok st(3) have sum: "serial_tx x1 @ unsent x1 = serial_tx s @ unsent (start_primary s)"
    by (simp add: burst_ok_def)
  show ?thesis
  proof (cases "current_tx_slot x1 = 0")
    case True
    with ok have "rxState x1 = MCTPSER_WAITING_FOR_SYNC \<and> unsent x1 = []"
      by (auto simp: burst_ok_def sending_def)
    with run sum assms True Suc show ?thesis
      by (simp add: mctp_send_frame_def)
  next
    case False
    with ok have "sending x1" by (auto simp: burst_ok_def)
    from send_frame_calls_sending[OF this, of m] obtain s' where
      "send_frame_calls m x1 = Inr s'"
      "serial_tx s' @ unsent s' = serial_tx x1 @ unsent x1"
      "rxState s' = MCTPSER_WAITING_FOR_SYNC \<longrightarrow> unsent s' = []" by blast
    with run sum assms False Suc
    have "send_frame_calls n s = Inr s'"
      and "serial_tx s @ unsent (start_primary s) = serial_tx s' @ unsent s'"
      and "rxState s' = MCTPSER_WAITING_FOR_SYNC
           \<longrightarrow> serial_tx s' = serial_tx s @ unsent (start_primary s)"
      by (auto simp: mctp_send_frame_def)
    then show ?thesis by blast
  qed
qed

lemma send_frame_always_writable:
  assumes "rxState s = MCTPSER_AWAITING_RESPONSE" and "current_tx_slot s = 0"
    and "unat (mctp_buffer s ! OFFSET_BYTE_COUNT) + 6 \<le> MCTP_BUFFER_SIZE"
  shows "\<exists>k1 s1. mctp_send_frame (s\<lparr>can_write_sched := \<lambda>n. True\<rparr>) = Inr (k1, s1)
           \<and> rxState s1 = MCTPSER_WAITING_FOR_SYNC
           \<and> serial_tx s1 = serial_tx s @ unsent (start_primary s)"
proof -
  let ?t = "s\<lparr>can_write_sched := \<lambda>n. True\<rparr>"
  have b: "unat (mctp_buffer ?t ! OFFSET_BYTE_COUNT) + 6 \<le> MCTP_BUFFER_SIZE"
    using assms(3) by simp
  note st = start_primary_sending[OF b]
  from send_loop_sending[OF st(1), of 0] obtain k x1 where
    run: "send_loop 0 (start_primary ?t) = Inr (k, x1)"
    and ok: "burst_ok (start_primary ?t) x1" by blast
  have always: "can_write_sched (start_primary ?t) m" for m
    by (simp add: start_primary_def)
  have same: "unsent (start_primary ?t) = unsent (start_primary s)"
    by (simp add: unsent_def start_primary_def)
  from ok always have "rxState x1 = MCTPSER_WAITING_FOR_SYNC \<and> unsent x1 = []"
    by (auto simp: burst_ok_def)
  moreover from ok st(3) same
  have "serial_tx x1 @ unsent x1 = serial_tx s @ unsent (start_primary s)"
    by (simp add: burst_ok_def)
  ultimately show ?thesis
    using run assms by (simp add: mctp_send_frame_def)
qed

lemma refused_write_returns:
  assumes "sending x" and "send_idx x < send_total_len x"
    and "\<not> can_write_sched x (can_write_calls x)"
  shows "send_loop n x = Inr (n, x\<lparr>can_write_calls := Suc (can_write_calls x)\<rparr>)"
  using assms
  by (subst send_loop.simps)
     (simp add: send_iteration_defs sending_def word_le_nat_alt word_less_nat_alt)

lemma refused_second_write_latches:
  assumes "sending x" and "send_idx x < send_total_len x" and "send_escape_pending x = 0"
    and "3 \<le> unat (send_idx x)"
    and "unat (send_idx x) \<le> unat (mctp_buffer x ! OFFSET_BYTE_COUNT) + 3"
    and "mctp_buffer x ! unat (send_idx x) = FRAME_CHAR
         \<or> mctp_buffer x ! unat (send_idx x) = ESCAPE_CHAR"
    and "can_write_sched x (can_write_calls x)"
    and "\<not> can_write_sched x (Suc (can_write_calls x))"
  shows "send_loop n x =
           Inr (n, x\<lparr>can_write_calls := Suc (Suc (can_write_calls x)),
                     serial_tx := serial_tx x @ [ESCAPE_CHAR],
                     send_pending_byte := mctp_buffer x ! unat (send_idx x) - 0x20,
                     send_escape_pending := 1\<rparr>)"
  using assms
  by (subst send_loop.simps)
     (auto simp: send_iteration_defs sending_def word_le_nat_alt word_less_nat_alt
        unat_body_plus3)


lemma writable_from_now_completes:
  assumes "sending x" and "\<forall>m\<ge>can_write_calls x. can_write_sched x m"
  shows "\<exists>k x'. mctp_send_frame x = Inr (k, x') \<and> rxState x' = MCTPSER_WAITING_FOR_SYNC
           \<and> serial_tx x' = serial_tx x @ unsent x"
proof -
  from send_loop_sending[OF assms(1), of 0] obtain k x' where
    run: "send_loop 0 x = Inr (k, x')" and ok: "burst_ok x x'" by blast
  from ok assms(2) have "rxState x' = MCTPSER_WAITING_FOR_SYNC \<and> unsent x' = []
      \<and> serial_tx x' @ unsent x' = serial_tx x @ unsent x"
    by (auto simp: burst_ok_def)
  with run assms(1) show ?thesis
    by (auto simp: mctp_send_frame_def sending_def)
qed

text \<open>
  C4. A frame that fits the buffer is handed to the transmitter, on a platform with any
  schedule of \<^verbatim>\<open>platform_serial_can_write\<close> answers. One call under the always-true
  schedule completes the frame; under the given schedule, any number of calls of
  \<^verbatim>\<open>mctp_send_frame\<close> has written a prefix of the bytes of that one call, and all of
  them, in order, once the frame has completed. A call whose first write is refused
  returns 0 with the state as it was (a latched second byte included), a refusal
  between the two bytes of an escape pair latches the second byte, and a call from which
  on the platform accepts every write completes the frame.
\<close>

theorem send_frame_resumes_without_loss:
  assumes "rxState s = MCTPSER_AWAITING_RESPONSE" and "current_tx_slot s = 0"
    and "length (mctp_buffer s) = MCTP_BUFFER_SIZE"
    and "unat (mctp_buffer s ! OFFSET_BYTE_COUNT) + 6 \<le> MCTP_BUFFER_SIZE"
  shows "\<exists>k1 s1. mctp_send_frame (s\<lparr>can_write_sched := \<lambda>n. True\<rparr>) = Inr (k1, s1)
           \<and> rxState s1 = MCTPSER_WAITING_FOR_SYNC
           \<and> (\<forall>n. \<exists>s'. send_frame_calls n s = Inr s'
                 \<and> (\<exists>rest. serial_tx s1 = serial_tx s' @ rest)
                 \<and> (rxState s' = MCTPSER_WAITING_FOR_SYNC \<longrightarrow> serial_tx s' = serial_tx s1))
           \<and> (\<forall>x. sending x \<and> send_idx x < send_total_len x
                    \<and> \<not> can_write_sched x (can_write_calls x)
                 \<longrightarrow> mctp_send_frame x
                       = Inr (0, x\<lparr>can_write_calls := Suc (can_write_calls x)\<rparr>))
           \<and> (\<forall>x. sending x \<and> send_idx x < send_total_len x \<and> send_escape_pending x = 0
                    \<and> 3 \<le> unat (send_idx x)
                    \<and> unat (send_idx x) \<le> unat (mctp_buffer x ! OFFSET_BYTE_COUNT) + 3
                    \<and> (mctp_buffer x ! unat (send_idx x) = FRAME_CHAR
                        \<or> mctp_buffer x ! unat (send_idx x) = ESCAPE_CHAR)
                    \<and> can_write_sched x (can_write_calls x)
                    \<and> \<not> can_write_sched x (Suc (can_write_calls x))
                 \<longrightarrow> mctp_send_frame x
                       = Inr (0, x\<lparr>can_write_calls := Suc (Suc (can_write_calls x)),
                                   serial_tx := serial_tx x @ [ESCAPE_CHAR],
                                   send_pending_byte := mctp_buffer x ! unat (send_idx x) - 0x20,
                                   send_escape_pending := 1\<rparr>))
           \<and> (\<forall>x. sending x \<and> (\<forall>m\<ge>can_write_calls x. can_write_sched x m)
                 \<longrightarrow> (\<exists>k x'. mctp_send_frame x = Inr (k, x')
                        \<and> rxState x' = MCTPSER_WAITING_FOR_SYNC
                        \<and> serial_tx x' = serial_tx x @ unsent x))"
proof -
  from send_frame_always_writable[OF assms(1,2,4)] obtain k1 s1 where
    one: "mctp_send_frame (s\<lparr>can_write_sched := \<lambda>n. True\<rparr>) = Inr (k1, s1)"
    and fin: "rxState s1 = MCTPSER_WAITING_FOR_SYNC"
    and all: "serial_tx s1 = serial_tx s @ unsent (start_primary s)" by blast
  have many: "\<exists>s'. send_frame_calls n s = Inr s'
                 \<and> (\<exists>rest. serial_tx s1 = serial_tx s' @ rest)
                 \<and> (rxState s' = MCTPSER_WAITING_FOR_SYNC \<longrightarrow> serial_tx s' = serial_tx s1)"
    for n
    using send_frame_calls_from_start[OF assms(1,2,4), of n] unfolding all by blast
  have refused: "mctp_send_frame x = Inr (0, x\<lparr>can_write_calls := Suc (can_write_calls x)\<rparr>)"
    if "sending x" "send_idx x < send_total_len x" "\<not> can_write_sched x (can_write_calls x)"
    for x
    using that refused_write_returns[OF that, of 0]
    by (simp add: mctp_send_frame_def sending_def)
  have latched: "mctp_send_frame x
                   = Inr (0, x\<lparr>can_write_calls := Suc (Suc (can_write_calls x)),
                               serial_tx := serial_tx x @ [ESCAPE_CHAR],
                               send_pending_byte := mctp_buffer x ! unat (send_idx x) - 0x20,
                               send_escape_pending := 1\<rparr>)"
    if "sending x" "send_idx x < send_total_len x" "send_escape_pending x = 0"
      "3 \<le> unat (send_idx x)"
      "unat (send_idx x) \<le> unat (mctp_buffer x ! OFFSET_BYTE_COUNT) + 3"
      "mctp_buffer x ! unat (send_idx x) = FRAME_CHAR
       \<or> mctp_buffer x ! unat (send_idx x) = ESCAPE_CHAR"
      "can_write_sched x (can_write_calls x)"
      "\<not> can_write_sched x (Suc (can_write_calls x))"
    for x
    using that(1) refused_second_write_latches[OF that, of 0]
    by (simp add: mctp_send_frame_def sending_def)
  from one fin many refused latched writable_from_now_completes show ?thesis
    by blast
qed

theorem send_frame_resumes_without_loss_witness:
  "rxState (tx_escape_example even) = MCTPSER_AWAITING_RESPONSE
   \<and> current_tx_slot (tx_escape_example even) = 0
   \<and> length (mctp_buffer (tx_escape_example even)) = MCTP_BUFFER_SIZE
   \<and> unat (mctp_buffer (tx_escape_example even) ! OFFSET_BYTE_COUNT) + 6 \<le> MCTP_BUFFER_SIZE
   \<and> map_sum id (\<lambda>(k, s1). (serial_tx s1, rxState s1))
        (mctp_send_frame ((tx_escape_example even)\<lparr>can_write_sched := \<lambda>n. True\<rparr>))
      = Inr ([0x7E, 0x01, 0x02, 0x00, 0x7D, 0x5E, 0x12, 0x34, 0x7E], MCTPSER_WAITING_FOR_SYNC)
   \<and> map_sum id (\<lambda>s'. (serial_tx s', rxState s', can_write_calls s'))
        (send_frame_calls 5 (tx_escape_example even))
      = Inr ([0x7E, 0x01, 0x02, 0x00, 0x7D], SENDING_RESPONSE, 10)
   \<and> map_sum id (\<lambda>s'. (serial_tx s', rxState s', can_write_calls s'))
        (send_frame_calls 9 (tx_escape_example even))
      = Inr ([0x7E, 0x01, 0x02, 0x00, 0x7D, 0x5E, 0x12, 0x34, 0x7E], MCTPSER_WAITING_FOR_SYNC, 17)"
  using send_frame_resumes_without_loss [of "tx_escape_example even"]
  by (simp add: tx_escape_example_def framer_eval send_eval)


subsection \<open>Framer\<close>

lemma unat_buffer_idx_inc:
  fixes i :: uint8
  shows "unat i < 70 \<Longrightarrow> unat (i + 1) = Suc (unat i)"
  by (simp add: unat_word_ariths)

lemma mctp_update_without_data: "serial_rx s = [] \<Longrightarrow> mctp_update s = Inr s"
  by (simp add: mctp_update_def platform_serial_has_data_def)

text \<open>
  C1. The framer is in \<^verbatim>\<open>MCTPSER_END\<close>, the byte read is \<open>0x7E\<close> and the store of
  that byte is inside the buffer. Then \<^verbatim>\<open>mctp_update\<close> stores the byte, and with \<open>n\<close>
  the length received and \<open>b\<close> the buffer after the store it moves to
  \<^verbatim>\<open>MCTPSER_AWAITING_RESPONSE\<close> (packet available) exactly when \<open>n\<close> is at least 11, the
  byte count at offset 2 is \<open>n - 6\<close>, the FCS over the bytes \<open>1\<close> to \<open>n - 4\<close> equals
  the one stored high byte first at \<open>n - 3\<close> and \<open>n - 2\<close>, and the destination at offset
  4 is \<open>0x00\<close>, \<open>0xFF\<close> or \<open>endpoint_id\<close>; otherwise it moves to
  \<^verbatim>\<open>MCTPSER_WAITING_FOR_SYNC\<close>. Nothing is written to the serial port either way.
\<close>

theorem end_state_accepts_iff_valid:
  assumes "rxState s = MCTPSER_END"
    and "serial_rx s = FRAME_CHAR # rest"
    and "unat (buffer_idx s) < MCTP_BUFFER_SIZE"
    and "length (mctp_buffer s) = MCTP_BUFFER_SIZE"
  shows "let n = unat (buffer_idx s) + 1;
             b = (mctp_buffer s)[unat (buffer_idx s) := FRAME_CHAR]
         in \<exists>s'. mctp_update s = Inr s'
              \<and> unat (buffer_idx s') = n \<and> mctp_buffer s' = b
              \<and> serial_tx s' = serial_tx s
              \<and> rxState s' =
                  (if 11 \<le> n \<and> unat (b ! 2) = n - 6
                      \<and> calc_fcs INITFCS (take (n - 4) (drop 1 b))
                          = push_bit 8 (ucast (b ! (n - 3))) + ucast (b ! (n - 2))
                      \<and> (b ! 4 = 0x00 \<or> b ! 4 = 0xFF \<or> b ! 4 = endpoint_id s)
                   then MCTPSER_AWAITING_RESPONSE else MCTPSER_WAITING_FOR_SYNC)"
proof -
  have idx: "unat (buffer_idx s + 1) = Suc (unat (buffer_idx s))"
    using assms(3) by (simp add: unat_buffer_idx_inc)
  have cmp: "(int (unat c) \<noteq> int (unat (buffer_idx s + 1)) - 6)
             = (unat c \<noteq> unat (buffer_idx s) + 1 - 6)"
    if "11 \<le> unat (buffer_idx s) + 1" for c :: uint8
    using that unfolding idx by arith
  show ?thesis
    using assms
    by (auto simp: mctp_update_def platform_serial_has_data_def platform_serial_read_byte_def
          store_next_def validate_rx_def Let_def idx cmp simp del: of_nat_unat)
qed

theorem end_state_accepts_iff_valid_witness:
  "rxState (rx_end_example 0x00) = MCTPSER_END
   \<and> serial_rx (rx_end_example 0x00) = FRAME_CHAR # []
   \<and> unat (buffer_idx (rx_end_example 0x00)) < MCTP_BUFFER_SIZE
   \<and> length (mctp_buffer (rx_end_example 0x00)) = MCTP_BUFFER_SIZE
   \<and> (\<exists>s'. mctp_update (rx_end_example 0x00) = Inr s'
          \<and> rxState s' = MCTPSER_AWAITING_RESPONSE \<and> serial_tx s' = [])"
  using end_state_accepts_iff_valid [of "rx_end_example 0x00" "[]"]
  by (auto simp: rx_end_example_def static_init_def Let_def replicate_numeral_unfold
        list_update_Cons_numeral fcs_byte_unfold fcs_shift_def)

text \<open>
  The state tag stays one of the ten states \<open>0\<close> to \<open>9\<close> along every run of
  \<^verbatim>\<open>mctp_update\<close> that does not fault.
\<close>

lemma send_iteration_Continue_tag:
  "send_iteration n s = Continue n' s' \<Longrightarrow> rxState s' = rxState s"
  by (auto simp: send_iteration_defs split: if_splits)

lemma send_iteration_Return_tag:
  "send_iteration n s = Return (Inr (k, s')) \<Longrightarrow>
     rxState s' = rxState s \<or> rxState s' = MCTPSER_WAITING_FOR_SYNC"
  by (auto simp: send_iteration_defs send_complete_def split: if_splits)

lemma send_loop_tag:
  "send_loop n s = Inr (k, s') \<Longrightarrow>
     rxState s' = rxState s \<or> rxState s' = MCTPSER_WAITING_FOR_SYNC"
proof (induction n s rule: send_loop.induct)
  case (1 bytes_sent s)
  show ?case
  proof (cases "send_iteration bytes_sent s")
    case (Continue n' s1)
    with "1.prems" have "send_loop n' s1 = Inr (k, s')"
      by (subst (asm) send_loop.simps) simp
    from "1.IH"[OF Continue this] send_iteration_Continue_tag[OF Continue]
    show ?thesis by auto
  next
    case (Return r)
    with "1.prems" have "r = Inr (k, s')"
      by (subst (asm) send_loop.simps) simp
    with Return send_iteration_Return_tag show ?thesis by blast
  qed
qed

lemma mctp_send_frame_tag:
  assumes "mctp_send_frame s = Inr (k, s')"
  shows "rxState s' = rxState s \<or> rxState s' = MCTPSER_WAITING_FOR_SYNC
         \<or> rxState s' = SENDING_RESPONSE"
  using assms send_loop_tag[of 0 s k s'] send_loop_tag[of 0 "start_primary s" k s']
  by (auto simp: mctp_send_frame_def start_primary_def split: if_splits)

lemma mctp_update_state_tag:
  assumes "mctp_update s = Inr s'" and "unat (rxState s) \<le> 9"
  shows "unat (rxState s') \<le> 9"
proof (cases "serial_rx s")
  case Nil
  with assms show ?thesis
    by (simp add: mctp_update_def platform_serial_has_data_def)
next
  case (Cons b rest)
  show ?thesis
  proof (cases "rxState s = MCTPSER_AWAITING_RESPONSE \<or> rxState s = SENDING_RESPONSE")
    case True
    with assms(1) Cons
    have "map_sum id snd (mctp_send_frame (s\<lparr>serial_rx := rest\<rparr>)) = Inr s'"
      by (auto simp: mctp_update_def platform_serial_has_data_def
            platform_serial_read_byte_def Let_def)
    then obtain k where "mctp_send_frame (s\<lparr>serial_rx := rest\<rparr>) = Inr (k, s')"
      by (cases "mctp_send_frame (s\<lparr>serial_rx := rest\<rparr>)") auto
    from mctp_send_frame_tag[OF this] True show ?thesis by auto
  next
    case False
    with assms Cons show ?thesis
      by (auto simp: mctp_update_def platform_serial_has_data_def
            platform_serial_read_byte_def store_next_def restart_frame_def validate_rx_def
            Let_def split: if_splits sum.splits prod.splits)
  qed
qed

lemma mctp_updates_state_tag:
  "mctp_updates n s = Inr s' \<Longrightarrow> unat (rxState s) \<le> 9 \<Longrightarrow> unat (rxState s') \<le> 9"
proof (induction n arbitrary: s)
  case 0
  then show ?case by simp
next
  case (Suc n)
  then show ?case
    by (auto split: sum.splits dest: mctp_update_state_tag)
qed

text \<open>
  C3. The state tag stays valid (\<open>mctp_updates_state_tag\<close>), but the store index does
  not stay below the capacity of 70. A frame that declares a byte count of 0 passes the
  oversize test; the first body byte takes the counter of remaining body bytes from 0
  to 255, the framer stays in \<^verbatim>\<open>MCTPSER_BODY\<close>, and the 68th body byte is stored at
  index 70.
\<close>

theorem zero_byte_count_store_out_of_bounds:
  "map_sum id (\<lambda>s. (rxState s, byte_count s, buffer_idx s))
     (mctp_updates 4 (mctp_init (static_init ([0x7E, 0x01, 0x00] @ replicate 68 0x00) (\<lambda>n. True))))
   = Inr (MCTPSER_BODY, 255, 4)
   \<and> map_sum id (\<lambda>s. ())
     (mctp_updates 71 (mctp_init (static_init ([0x7E, 0x01, 0x00] @ replicate 68 0x00) (\<lambda>n. True))))
   = Inl (StoreOutOfBounds 70)"
  by (simp add: framer_eval)

text \<open>
  C5. The oversize test of \<^verbatim>\<open>MCTPSER_HEADER2\<close> compares the byte count plus 8 with
  the capacity of 70: the declared byte counts 63 and 64 send the framer back to
  \<^verbatim>\<open>MCTPSER_WAITING_FOR_SYNC\<close>, and 62 is the largest one that reaches
  \<^verbatim>\<open>MCTPSER_BODY\<close>.
\<close>

theorem header2_rejects_byte_count_64:
  "map_sum id rxState
     (mctp_updates 3 (mctp_init (static_init [0x7E, 0x01, 64] (\<lambda>n. True))))
   = Inr MCTPSER_WAITING_FOR_SYNC
  \<and> map_sum id rxState
     (mctp_updates 3 (mctp_init (static_init [0x7E, 0x01, 63] (\<lambda>n. True))))
   = Inr MCTPSER_WAITING_FOR_SYNC
  \<and> map_sum id rxState
     (mctp_updates 3 (mctp_init (static_init [0x7E, 0x01, 62] (\<lambda>n. True))))
   = Inr MCTPSER_BODY"
  by (simp add: framer_eval)

subsection \<open>Transmitter: concrete frames\<close>

text \<open>
  C2. A frame with byte count 2 has its FCS high byte at index 5. The test for the
  trailer is \<open>i > body_size + 3\<close>, so index 5 still counts as payload: a FCS high byte
  of \<open>0x7E\<close> goes out as the pair \<open>0x7D 0x5E\<close>, not as one raw byte.
\<close>

theorem fcs_high_byte_is_escaped:
  "map_sum id (\<lambda>(n, s). (serial_tx s, rxState s))
     (mctp_send_frame ((static_init [] (\<lambda>n. True))
        \<lparr>mctp_buffer := [0x7E, 0x01, 0x02, 0x00, 0x11, 0x7E, 0x34, 0x7E] @ replicate 62 0x00,
          rxState := MCTPSER_AWAITING_RESPONSE\<rparr>))
   = Inr ([0x7E, 0x01, 0x02, 0x00, 0x11, 0x7D, 0x5E, 0x34, 0x7E], MCTPSER_WAITING_FOR_SYNC)"
  by (simp add: framer_eval send_eval)

text \<open>
  C6. A transmission that stopped after three bytes because the platform refused a
  write: while no input byte is waiting, five more calls of \<^verbatim>\<open>mctp_update\<close> never ask
  the platform again and write nothing, although the platform would accept every byte;
  with one input byte waiting, a single call sends the rest of the frame.
\<close>

theorem update_without_input_does_not_send:
  "map_sum id (\<lambda>(n, s). (rxState s, serial_tx s, can_write_calls s))
     (mctp_send_frame ((static_init [] (\<lambda>n. n \<noteq> 3))
        \<lparr>mctp_buffer := [0x7E, 0x01, 0x02, 0x00, 0x11, 0x12, 0x34, 0x7E] @ replicate 62 0x00,
          rxState := MCTPSER_AWAITING_RESPONSE\<rparr>))
   = Inr (SENDING_RESPONSE, [0x7E, 0x01, 0x02], 4)
  \<and> map_sum id (\<lambda>s. (rxState s, serial_tx s, can_write_calls s))
     (case mctp_send_frame ((static_init [] (\<lambda>n. n \<noteq> 3))
        \<lparr>mctp_buffer := [0x7E, 0x01, 0x02, 0x00, 0x11, 0x12, 0x34, 0x7E] @ replicate 62 0x00,
          rxState := MCTPSER_AWAITING_RESPONSE\<rparr>) of
        Inl f \<Rightarrow> Inl f | Inr (n, s) \<Rightarrow> mctp_updates 5 s)
   = Inr (SENDING_RESPONSE, [0x7E, 0x01, 0x02], 4)
  \<and> map_sum id (\<lambda>s. (rxState s, serial_tx s, can_write_calls s))
     (case mctp_send_frame ((static_init [] (\<lambda>n. n \<noteq> 3))
        \<lparr>mctp_buffer := [0x7E, 0x01, 0x02, 0x00, 0x11, 0x12, 0x34, 0x7E] @ replicate 62 0x00,
          rxState := MCTPSER_AWAITING_RESPONSE\<rparr>) of
        Inl f \<Rightarrow> Inl f | Inr (n, s) \<Rightarrow> mctp_updates 1 (s\<lparr>serial_rx := [0x00]\<rparr>))
   = Inr (MCTPSER_WAITING_FOR_SYNC, [0x7E, 0x01, 0x02, 0x00, 0x11, 0x12, 0x34, 0x7E], 9)"
  by (simp add: framer_eval send_eval)

subsection \<open>Control responder\<close>

lemma send_response_returns:
  assumes "rxState s = MCTPSER_AWAITING_RESPONSE" and "current_tx_slot s = 0"
    and "unat (r ! OFFSET_BYTE_COUNT) + 6 \<le> MCTP_BUFFER_SIZE"
  shows "\<exists>s'. send_response (s\<lparr>mctp_buffer := r\<rparr>) = Inr s' \<and> mctp_buffer s' = r
           \<and> endpoint_id s' = endpoint_id s"
proof -
  let ?t = "s\<lparr>mctp_buffer := r\<rparr>"
  have fits: "unat (mctp_buffer ?t ! OFFSET_BYTE_COUNT) + 6 \<le> MCTP_BUFFER_SIZE"
    using assms(3) by simp
  note st = start_primary_sending[OF fits]
  from send_loop_sending[OF st(1), of 0] obtain k x1 where
    run: "send_loop 0 (start_primary ?t) = Inr (k, x1)"
    and ok: "burst_ok (start_primary ?t) x1" by blast
  from ok have "mctp_buffer x1 = r \<and> endpoint_id x1 = endpoint_id s"
    by (simp add: burst_ok_def start_primary_def)
  with run assms show ?thesis
    by (simp add: send_response_def mctp_send_frame_def)
qed

lemma flags_bits:
  fixes x :: uint8
  shows "bit ((x XOR 0x08) OR 0xC0) 7" "bit ((x XOR 0x08) OR 0xC0) 6"
    "bit ((x XOR 0x08) OR 0xC0) 3 = (\<not> bit x 3)"
    "\<not> bit (x AND NOT 0x80) 7"
  by (simp_all add: bit_or_iff bit_xor_iff bit_and_iff bit_not_iff)

lemma rq_bit_cleared:
  fixes x :: uint8
  shows "\<not> bit (x AND - 129) 7"
  using flags_bits(4)[of x] by simp

lemma set_force_operation:
  fixes x :: uint8
  assumes "x AND 0x03 = 0x00 \<or> x AND 0x03 = 0x01"
  shows "x AND 0x02 = 0"
proof -
  have "x AND 0x02 = (x AND 0x03) AND 0x02"
    by (simp add: and.assoc)
  with assms show ?thesis by auto
qed

lemma nth_clear_rq_bit:
  "length b = MCTP_BUFFER_SIZE \<Longrightarrow>
     clear_rq_bit b ! i = (if i = 8 then b ! 8 AND NOT 0x80 else b ! i)"
  by (simp add: clear_rq_bit_def nth_list_update)

lemma nth_toggle_tag_owner:
  "length b = MCTP_BUFFER_SIZE \<Longrightarrow>
     toggle_tag_owner b ! i = (if i = 6 then b ! 6 XOR 0x08 else b ! i)"
  by (simp add: toggle_tag_owner_def nth_list_update)

lemma nth_set_som_eom:
  "length b = MCTP_BUFFER_SIZE \<Longrightarrow>
     set_som_eom b ! i = (if i = 6 then b ! 6 OR 0xC0 else b ! i)"
  by (simp add: set_som_eom_def nth_list_update)

lemma nth_swap_eids:
  "length b = MCTP_BUFFER_SIZE \<Longrightarrow>
     swap_eids b ! i = (if i = 4 then b ! 5 else if i = 5 then b ! 4 else b ! i)"
  by (simp add: swap_eids_def nth_list_update Let_def)

lemma nth_set_byte_count:
  "length b = MCTP_BUFFER_SIZE \<Longrightarrow>
     set_byte_count idx b ! i = (if i = 2 then of_nat (idx - 3) else b ! i)"
  by (simp add: set_byte_count_def nth_list_update)

lemma nth_append_fcs_and_end:
  "i < idx \<Longrightarrow> append_fcs_and_end idx b ! i = b ! i"
  by (simp add: append_fcs_and_end_def Let_def)

lemma length_response_steps:
  "length (clear_rq_bit b) = length b" "length (toggle_tag_owner b) = length b"
  "length (set_som_eom b) = length b" "length (swap_eids b) = length b"
  "length (set_byte_count idx b) = length b" "length (append_fcs_and_end idx b) = length b"
  by (simp_all add: clear_rq_bit_def toggle_tag_owner_def set_som_eom_def swap_eids_def
        set_byte_count_def append_fcs_and_end_def Let_def)

lemmas response_nth =
  nth_clear_rq_bit nth_toggle_tag_owner nth_set_som_eom nth_swap_eids nth_set_byte_count
  nth_append_fcs_and_end length_response_steps nth_list_update

lemma and_two_cases:
  fixes x :: uint8
  shows "x AND 0x02 = 0 \<or> x AND 0x02 = 0x02"
proof (cases "bit x 1")
  case True
  have "x AND 2 = 2"
    by (rule bit_eqI) (use True in \<open>auto simp: bit_and_iff bit_2_iff\<close>)
  then show ?thesis by simp
next
  case False
  have "x AND 2 = 0"
    by (rule bit_eqI) (use False in \<open>auto simp: bit_and_iff bit_2_iff\<close>)
  then show ?thesis by simp
qed

lemma response_header:
  assumes "length body = MCTP_BUFFER_SIZE" and "11 \<le> idx"
    and "body ! 4 = q ! 4" "body ! 5 = q ! 5" "body ! 6 = q ! 6"
  shows "response_header_of q
           (append_fcs_and_end idx (set_byte_count idx (swap_eids (set_som_eom
              (toggle_tag_owner (clear_rq_bit body))))))"
  using assms by (simp add: response_header_of_def response_nth flags_bits rq_bit_cleared)

lemma response_fits:
  assumes "length body = MCTP_BUFFER_SIZE" and "11 \<le> idx" and "idx \<le> 16"
  shows "unat (append_fcs_and_end idx (set_byte_count idx (swap_eids (set_som_eom
              (toggle_tag_owner (clear_rq_bit body))))) ! OFFSET_BYTE_COUNT) + 6
         \<le> MCTP_BUFFER_SIZE"
proof -
  have "unat (of_nat (idx - 3) :: uint8) = idx - 3"
    using assms(3) by (simp add: unat_of_nat take_bit_nat_eq_self)
  with assms show ?thesis by (simp add: response_nth)
qed

lemma response_payload:
  assumes "length body = MCTP_BUFFER_SIZE" and "i < idx" and "9 \<le> i"
  shows "append_fcs_and_end idx (set_byte_count idx (swap_eids (set_som_eom
              (toggle_tag_owner (clear_rq_bit body))))) ! i = body ! i"
  using assms by (simp add: response_nth)

lemma set_endpoint_id_response:
  assumes "rxState s = MCTPSER_AWAITING_RESPONSE" and "current_tx_slot s = 0"
    and "length (mctp_buffer s) = MCTP_BUFFER_SIZE"
  shows "\<exists>s'. process_set_endpoint_id_control_message s = Inr s'
           \<and> response_header_of (mctp_buffer s) (mctp_buffer s')
           \<and> (if mctp_buffer s ! 10 AND 0x02 = 0
                  \<and> mctp_buffer s ! 11 \<noteq> 0x00 \<and> mctp_buffer s ! 11 \<noteq> 0xFF
               then mctp_buffer s' ! 10 = CONTROL_COMPLETE_SUCCESS \<and> mctp_buffer s' ! 11 = 0x00
                    \<and> endpoint_id s' = mctp_buffer s ! 11
               else mctp_buffer s' ! 10 = CONTROL_COMPLETE_INVALID_DATA
                    \<and> mctp_buffer s' ! 11 = 0x10 \<and> endpoint_id s' = endpoint_id s)"
proof -
  let ?op = "mctp_buffer s ! 10 AND 0x02" and ?eid = "mctp_buffer s ! 11"
  define ok where "ok \<longleftrightarrow> ?op = 0 \<and> ?eid \<noteq> 0x00 \<and> ?eid \<noteq> 0xFF"
  define body where "body = (mctp_buffer s)
                 [10 := if ok then CONTROL_COMPLETE_SUCCESS else CONTROL_COMPLETE_INVALID_DATA,
                  11 := if ok then 0x00 else 0x10, 12 := endpoint_id s, 13 := 0x00]"
  define r where "r = append_fcs_and_end 14 (set_byte_count 14 (swap_eids (set_som_eom
              (toggle_tag_owner (clear_rq_bit body)))))"
  have len: "length body = MCTP_BUFFER_SIZE"
    using assms(3) by (simp add: body_def)
  have fits: "unat (r ! OFFSET_BYTE_COUNT) + 6 \<le> MCTP_BUFFER_SIZE"
    unfolding r_def by (rule response_fits[OF len]) simp_all
  from send_response_returns[OF assms(1,2) fits] obtain s1 where
    sent: "send_response (s\<lparr>mctp_buffer := r\<rparr>) = Inr s1"
    and buf: "mctp_buffer s1 = r" and eid: "endpoint_id s1 = endpoint_id s" by blast
  have hdr: "response_header_of (mctp_buffer s) r"
    unfolding r_def using assms(3)
    by (intro response_header[OF len]) (simp_all add: body_def)
  have c10: "r ! 10 = (if ok then CONTROL_COMPLETE_SUCCESS else CONTROL_COMPLETE_INVALID_DATA)"
    and c11: "r ! 11 = (if ok then 0x00 else 0x10)"
  proof -
    have "r ! 10 = body ! 10" and "r ! 11 = body ! 11"
      unfolding r_def by (simp_all add: response_payload[OF len])
    then show "r ! 10 = (if ok then CONTROL_COMPLETE_SUCCESS else CONTROL_COMPLETE_INVALID_DATA)"
      and "r ! 11 = (if ok then 0x00 else 0x10)"
      using assms(3) by (simp_all add: body_def)
  qed
  have run: "process_set_endpoint_id_control_message s
             = Inr (if ok then s1\<lparr>endpoint_id := ?eid\<rparr> else s1)"
    using assms(1) sent and_two_cases[of "mctp_buffer s ! 10"]
    by (auto simp: process_set_endpoint_id_control_message_def mctp_is_packet_available_def
          Let_def ok_def body_def r_def)
  show ?thesis
    unfolding run using hdr c10 c11 buf eid
    by (auto simp: ok_def)
qed


lemma get_endpoint_id_response:
  assumes "rxState s = MCTPSER_AWAITING_RESPONSE" and "current_tx_slot s = 0"
    and "length (mctp_buffer s) = MCTP_BUFFER_SIZE"
  shows "\<exists>s'. process_get_endpoint_id_control_message s = Inr s'
           \<and> response_header_of (mctp_buffer s) (mctp_buffer s')"
proof -
  define body where "body = (mctp_buffer s)
                 [10 := CONTROL_COMPLETE_SUCCESS, 11 := endpoint_id s, 12 := 0x00]"
  define r where "r = append_fcs_and_end 13 (set_som_eom (toggle_tag_owner (clear_rq_bit
                (set_byte_count 13 (swap_eids (clear_rq_bit body))))))"
  have len: "length body = MCTP_BUFFER_SIZE"
    using assms(3) by (simp add: body_def)
  have same: "body ! 4 = mctp_buffer s ! 4" "body ! 5 = mctp_buffer s ! 5"
    "body ! 6 = mctp_buffer s ! 6"
    using assms(3) by (simp_all add: body_def)
  have fits: "unat (r ! OFFSET_BYTE_COUNT) + 6 \<le> MCTP_BUFFER_SIZE"
    unfolding r_def using len by (simp add: response_nth)
  from send_response_returns[OF assms(1,2) fits] obtain s1 where
    sent: "send_response (s\<lparr>mctp_buffer := r\<rparr>) = Inr s1"
    and buf: "mctp_buffer s1 = r" by blast
  have hdr: "response_header_of (mctp_buffer s) r"
    unfolding r_def using len same
    by (simp add: response_header_of_def response_nth flags_bits rq_bit_cleared)
  show ?thesis
    using assms(1) sent buf hdr
    by (simp add: process_get_endpoint_id_control_message_def mctp_is_packet_available_def
          Let_def body_def r_def)
qed

lemma get_mctp_version_support_response:
  assumes "rxState s = MCTPSER_AWAITING_RESPONSE" and "current_tx_slot s = 0"
    and "length (mctp_buffer s) = MCTP_BUFFER_SIZE"
  shows "\<exists>s'. process_get_mctp_version_support_control_message s = Inr s'
           \<and> response_header_of (mctp_buffer s) (mctp_buffer s')"
proof -
  define known where "known \<longleftrightarrow> mctp_buffer s ! 10 = 0x00 \<or> mctp_buffer s ! 10 = 0xFF"
  define body where "body =
     (if known then (mctp_buffer s)[10 := CONTROL_COMPLETE_SUCCESS, 11 := 1, 12 := 0x01,
                                    13 := 0x03, 14 := 0x01, 15 := 0x00]
      else (mctp_buffer s)[10 := 0x80, 11 := 0x00])"
  define idx :: nat where "idx = (if known then 16 else 12)"
  define r where "r = append_fcs_and_end idx (set_byte_count idx (swap_eids (set_som_eom
              (toggle_tag_owner (clear_rq_bit body)))))"
  have len: "length body = MCTP_BUFFER_SIZE"
    using assms(3) by (simp add: body_def)
  have fits: "unat (r ! OFFSET_BYTE_COUNT) + 6 \<le> MCTP_BUFFER_SIZE"
    unfolding r_def by (rule response_fits[OF len]) (simp_all add: idx_def)
  from send_response_returns[OF assms(1,2) fits] obtain s1 where
    sent: "send_response (s\<lparr>mctp_buffer := r\<rparr>) = Inr s1"
    and buf: "mctp_buffer s1 = r" by blast
  have hdr: "response_header_of (mctp_buffer s) r"
    unfolding r_def using assms(3)
    by (intro response_header[OF len]) (simp_all add: body_def idx_def)
  show ?thesis
    using assms(1) sent buf hdr
    by (auto simp: process_get_mctp_version_support_control_message_def
          mctp_is_packet_available_def Let_def body_def r_def idx_def known_def)
qed

lemma get_message_type_support_response:
  assumes "rxState s = MCTPSER_AWAITING_RESPONSE" and "current_tx_slot s = 0"
    and "length (mctp_buffer s) = MCTP_BUFFER_SIZE"
  shows "\<exists>s'. process_get_message_type_support_control_message s = Inr s'
           \<and> response_header_of (mctp_buffer s) (mctp_buffer s')"
proof -
  define body where "body = (mctp_buffer s)
                     [10 := CONTROL_COMPLETE_SUCCESS, 11 := 4,
                      12 := CONTROL_MSG_SET_ENDPOINT_ID, 13 := CONTROL_MSG_GET_ENDPOINT_ID,
                      14 := CONTROL_MSG_GET_MCTP_VERSION_SUPPORT,
                      15 := CONTROL_MSG_GET_MESSAGE_TYPE_SUPPORT]"
  define r where "r = append_fcs_and_end 16 (set_byte_count 16 (swap_eids (set_som_eom
              (toggle_tag_owner (clear_rq_bit body)))))"
  have len: "length body = MCTP_BUFFER_SIZE"
    using assms(3) by (simp add: body_def)
  have fits: "unat (r ! OFFSET_BYTE_COUNT) + 6 \<le> MCTP_BUFFER_SIZE"
    unfolding r_def by (rule response_fits[OF len]) simp_all
  from send_response_returns[OF assms(1,2) fits] obtain s1 where
    sent: "send_response (s\<lparr>mctp_buffer := r\<rparr>) = Inr s1"
    and buf: "mctp_buffer s1 = r" by blast
  have hdr: "response_header_of (mctp_buffer s) r"
    unfolding r_def using assms(3)
    by (intro response_header[OF len]) (simp_all add: body_def)
  show ?thesis
    using assms(1) sent buf hdr
    by (simp add: process_get_message_type_support_control_message_def
          mctp_is_packet_available_def Let_def body_def r_def)
qed

lemma unsupported_response:
  assumes "rxState s = MCTPSER_AWAITING_RESPONSE" and "current_tx_slot s = 0"
    and "length (mctp_buffer s) = MCTP_BUFFER_SIZE"
  shows "\<exists>s'. process_unsupported_control_message s = Inr s'
           \<and> response_header_of (mctp_buffer s) (mctp_buffer s')"
proof -
  define body where "body = (mctp_buffer s)[10 := CONTROL_COMPLETE_UNSUPPORTED_CMD]"
  define r where "r = append_fcs_and_end 11 (set_byte_count 11 (swap_eids (set_som_eom
              (toggle_tag_owner (clear_rq_bit body)))))"
  have len: "length body = MCTP_BUFFER_SIZE"
    using assms(3) by (simp add: body_def)
  have fits: "unat (r ! OFFSET_BYTE_COUNT) + 6 \<le> MCTP_BUFFER_SIZE"
    unfolding r_def by (rule response_fits[OF len]) simp_all
  from send_response_returns[OF assms(1,2) fits] obtain s1 where
    sent: "send_response (s\<lparr>mctp_buffer := r\<rparr>) = Inr s1"
    and buf: "mctp_buffer s1 = r" by blast
  have hdr: "response_header_of (mctp_buffer s) r"
    unfolding r_def using assms(3)
    by (intro response_header[OF len]) (simp_all add: body_def)
  show ?thesis
    using assms(1) sent buf hdr
    by (simp add: process_unsupported_control_message_def
          mctp_is_packet_available_def Let_def body_def r_def)
qed

text \<open>
  C7. An available Set Endpoint ID request whose operation (bits 1:0 of the byte at
  offset 10) is \<open>0x00\<close> or \<open>0x01\<close> and whose requested EID (offset 11) is neither
  \<open>0x00\<close> nor \<open>0xFF\<close>: the response has completion code \<open>SUCCESS\<close> at offset 10 and
  acceptance status \<open>0x00\<close> at offset 11, and \<open>endpoint_id\<close> becomes the requested EID.
\<close>

theorem set_endpoint_id_accepted:
  assumes "rxState s = MCTPSER_AWAITING_RESPONSE" and "current_tx_slot s = 0"
    and "length (mctp_buffer s) = MCTP_BUFFER_SIZE"
    and "mctp_buffer s ! OFFSET_CTRL_COMMAND_CODE = CONTROL_MSG_SET_ENDPOINT_ID"
    and "mctp_buffer s ! 10 AND 0x03 = 0x00 \<or> mctp_buffer s ! 10 AND 0x03 = 0x01"
    and "mctp_buffer s ! 11 \<noteq> 0x00" and "mctp_buffer s ! 11 \<noteq> 0xFF"
  shows "\<exists>s'. mctp_process_control_message s = Inr s'
           \<and> mctp_buffer s' ! OFFSET_CTRL_COMPLETION_CODE = CONTROL_COMPLETE_SUCCESS
           \<and> mctp_buffer s' ! 11 = 0x00
           \<and> endpoint_id s' = mctp_buffer s ! 11"
  using set_endpoint_id_response[OF assms(1,2,3)] set_force_operation[OF assms(5)] assms(4,6,7)
  by (auto simp: mctp_process_control_message_def)

theorem set_endpoint_id_accepted_witness:
  "let w = packet_available_example
             [0x7E, 0x01, 0x09, 0x01, 0x00, 0x08, 0xC8, 0x00, 0x80, 0x01, 0x01, 0x09,
              0xA6, 0x25, 0x7E]
   in rxState w = MCTPSER_AWAITING_RESPONSE \<and> current_tx_slot w = 0
      \<and> length (mctp_buffer w) = MCTP_BUFFER_SIZE
      \<and> mctp_buffer w ! OFFSET_CTRL_COMMAND_CODE = CONTROL_MSG_SET_ENDPOINT_ID
      \<and> mctp_buffer w ! 10 AND 0x03 = 0x01
      \<and> mctp_buffer w ! 11 = 0x09
      \<and> (\<exists>s'. mctp_process_control_message w = Inr s'
             \<and> mctp_buffer s' ! OFFSET_CTRL_COMPLETION_CODE = CONTROL_COMPLETE_SUCCESS
             \<and> mctp_buffer s' ! 11 = 0x00
             \<and> endpoint_id s' = 0x09)"
  using set_endpoint_id_accepted [of "packet_available_example
               [0x7E, 0x01, 0x09, 0x01, 0x00, 0x08, 0xC8, 0x00, 0x80, 0x01, 0x01, 0x09,
                0xA6, 0x25, 0x7E]"]
  by (auto simp: packet_available_example_def static_init_def nth_append Let_def)

text \<open>
  C8. No available Set Endpoint ID request sets \<open>endpoint_id\<close> to \<open>0x00\<close> or
  \<open>0xFF\<close>: afterwards it is what it was or a value other than those two. When the
  operation is set or force and the requested EID is \<open>0x00\<close> or \<open>0xFF\<close>, the
  response has completion code \<open>INVALID_DATA\<close> (\<open>0x02\<close>) at offset 10 and acceptance
  status \<open>0x10\<close> at offset 11, and \<open>endpoint_id\<close> is unchanged.
\<close>

theorem set_endpoint_id_never_reserved:
  assumes "rxState s = MCTPSER_AWAITING_RESPONSE" and "current_tx_slot s = 0"
    and "length (mctp_buffer s) = MCTP_BUFFER_SIZE"
    and "mctp_buffer s ! OFFSET_CTRL_COMMAND_CODE = CONTROL_MSG_SET_ENDPOINT_ID"
  shows "\<exists>s'. mctp_process_control_message s = Inr s'
           \<and> (endpoint_id s' = endpoint_id s
                \<or> endpoint_id s' \<noteq> 0x00 \<and> endpoint_id s' \<noteq> 0xFF)
           \<and> ((mctp_buffer s ! 10 AND 0x03 = 0x00 \<or> mctp_buffer s ! 10 AND 0x03 = 0x01)
                \<and> (mctp_buffer s ! 11 = 0x00 \<or> mctp_buffer s ! 11 = 0xFF)
               \<longrightarrow> mctp_buffer s' ! OFFSET_CTRL_COMPLETION_CODE = CONTROL_COMPLETE_INVALID_DATA
                   \<and> mctp_buffer s' ! 11 = 0x10
                   \<and> endpoint_id s' = endpoint_id s)"
  using set_endpoint_id_response[OF assms(1,2,3)] assms(4)
  by (auto simp: mctp_process_control_message_def split: if_splits)

theorem set_endpoint_id_never_reserved_witness:
  "let w = packet_available_example
             [0x7E, 0x01, 0x09, 0x01, 0x00, 0x08, 0xC8, 0x00, 0x80, 0x01, 0x01, 0x00,
              0x3B, 0xE4, 0x7E]
   in rxState w = MCTPSER_AWAITING_RESPONSE \<and> current_tx_slot w = 0
      \<and> length (mctp_buffer w) = MCTP_BUFFER_SIZE
      \<and> mctp_buffer w ! OFFSET_CTRL_COMMAND_CODE = CONTROL_MSG_SET_ENDPOINT_ID
      \<and> mctp_buffer w ! 10 AND 0x03 = 0x01
      \<and> mctp_buffer w ! 11 = 0x00
      \<and> (\<exists>s'. mctp_process_control_message w = Inr s'
             \<and> mctp_buffer s' ! OFFSET_CTRL_COMPLETION_CODE = CONTROL_COMPLETE_INVALID_DATA
             \<and> mctp_buffer s' ! 11 = 0x10
             \<and> endpoint_id s' = endpoint_id w)"
  using set_endpoint_id_never_reserved [of "packet_available_example
               [0x7E, 0x01, 0x09, 0x01, 0x00, 0x08, 0xC8, 0x00, 0x80, 0x01, 0x01, 0x00,
                0x3B, 0xE4, 0x7E]"]
  by (auto simp: packet_available_example_def static_init_def nth_append Let_def)

text \<open>
  C9. Whatever the command code of an available request (the four supported commands
  or any other), the response that \<^verbatim>\<open>mctp_process_control_message\<close> leaves in the
  buffer has the request's source EID as destination and its destination EID as source,
  SOM (bit 7) and EOM (bit 6) of the flags byte set, the Tag Owner bit (bit 3) inverted,
  and the Rq bit (bit 7 of the instance-ID byte) cleared.
\<close>

theorem response_header_reverses_request:
  assumes "rxState s = MCTPSER_AWAITING_RESPONSE" and "current_tx_slot s = 0"
    and "length (mctp_buffer s) = MCTP_BUFFER_SIZE"
  shows "\<exists>s'. mctp_process_control_message s = Inr s'
           \<and> mctp_buffer s' ! OFFSET_DESTINATION_ENDPOINT_ID
               = mctp_buffer s ! OFFSET_SOURCE_ENDPOINT_ID
           \<and> mctp_buffer s' ! OFFSET_SOURCE_ENDPOINT_ID
               = mctp_buffer s ! OFFSET_DESTINATION_ENDPOINT_ID
           \<and> bit (mctp_buffer s' ! OFFSET_FLAGS) 7 \<and> bit (mctp_buffer s' ! OFFSET_FLAGS) 6
           \<and> bit (mctp_buffer s' ! OFFSET_FLAGS) 3 = (\<not> bit (mctp_buffer s ! OFFSET_FLAGS) 3)
           \<and> \<not> bit (mctp_buffer s' ! OFFSET_CTRL_INSTANCE_ID) 7"
proof -
  have "\<exists>s'. mctp_process_control_message s = Inr s'
           \<and> response_header_of (mctp_buffer s) (mctp_buffer s')"
    using set_endpoint_id_response[OF assms] get_endpoint_id_response[OF assms]
      get_mctp_version_support_response[OF assms] get_message_type_support_response[OF assms]
      unsupported_response[OF assms]
    by (auto simp: mctp_process_control_message_def Let_def)
  then show ?thesis
    by (simp add: response_header_of_def)
qed

theorem response_header_reverses_request_witness:
  "let w = packet_available_example
             [0x7E, 0x01, 0x07, 0x01, 0x00, 0x08, 0xC8, 0x00, 0x80, 0x02, 0x2B, 0xC1, 0x7E]
   in rxState w = MCTPSER_AWAITING_RESPONSE \<and> current_tx_slot w = 0
      \<and> length (mctp_buffer w) = MCTP_BUFFER_SIZE
      \<and> (\<exists>s'. mctp_process_control_message w = Inr s'
             \<and> mctp_buffer s' ! OFFSET_DESTINATION_ENDPOINT_ID = 0x08
             \<and> mctp_buffer s' ! OFFSET_SOURCE_ENDPOINT_ID = 0x00
             \<and> bit (mctp_buffer s' ! OFFSET_FLAGS) 7 \<and> bit (mctp_buffer s' ! OFFSET_FLAGS) 6
             \<and> \<not> bit (mctp_buffer s' ! OFFSET_FLAGS) 3
             \<and> \<not> bit (mctp_buffer s' ! OFFSET_CTRL_INSTANCE_ID) 7)"
  using response_header_reverses_request [of "packet_available_example
               [0x7E, 0x01, 0x07, 0x01, 0x00, 0x08, 0xC8, 0x00, 0x80, 0x02, 0x2B, 0xC1, 0x7E]"]
  by (auto simp: packet_available_example_def static_init_def nth_append Let_def)

end
